theory Spec2Isabelle
  imports Main "HOL-Library.List_Lexorder"
begin

section \<open>Python values\<close>

text \<open>
  The exporter \<^verbatim>\<open>scripts/fetch_from_notion.py\<close> works on the JSON documents that the
  Notion client returns, with Python's dynamic typing. A Python \<^verbatim>\<open>str\<close> is the list of
  its Unicode code points, so that \<^verbatim>\<open>len\<close>, slicing and \<^verbatim>\<open>strip\<close> count what Python
  counts; \<open>u ''abc''\<close> is the literal of an ASCII text. A \<^verbatim>\<open>dict\<close> is the association
  list of its items in insertion order (keys are distinct in a dict that Python built).
  A \<^verbatim>\<open>float\<close> is represented by the text that Python's \<^verbatim>\<open>str\<close> prints for it.
\<close>

type_synonym pystr = "nat list"

definition u :: "string \<Rightarrow> pystr" where
  "u s = map of_char s"

datatype pyval =
    PNone
  | PBool bool
  | PInt int
  | PFloat pystr
  | PStr pystr
  | PList "pyval list"
  | PDict "(pystr \<times> pyval) list"

text \<open>
  Exceptions are values. \<open>RemoteError\<close> is what a call of the Notion client or of
  \<^verbatim>\<open>requests\<close> raises. \<open>Unmodelled\<close> marks the one place where the model stops short of
  Python: formatting a list or a dict inside an f-string prints its \<^verbatim>\<open>repr\<close>, which is
  not modelled.
\<close>

datatype pyerr =
    AttributeError
  | TypeError
  | IndexError
  | KeyError
  | ValueError
  | RemoteError pystr
  | Unmodelled

definition ebind :: "'e + 'a \<Rightarrow> ('a \<Rightarrow> 'e + 'b) \<Rightarrow> 'e + 'b" where
  "ebind m f = (case m of Inl e \<Rightarrow> Inl e | Inr x \<Rightarrow> f x)"

fun emapM :: "('a \<Rightarrow> 'e + 'b) \<Rightarrow> 'a list \<Rightarrow> 'e + 'b list" where
  "emapM f [] = Inr []"
| "emapM f (x # xs) = ebind (f x) (\<lambda>y. ebind (emapM f xs) (\<lambda>ys. Inr (y # ys)))"

text \<open>Truth value testing: \<^verbatim>\<open>if x\<close>, \<^verbatim>\<open>x or y\<close>, \<^verbatim>\<open>not x\<close>.\<close>

fun truthy :: "pyval \<Rightarrow> bool" where
  "truthy PNone = False"
| "truthy (PBool b) = b"
| "truthy (PInt i) = (i \<noteq> 0)"
| "truthy (PFloat r) = (r \<noteq> u ''0.0'' \<and> r \<noteq> u ''-0.0'')"
| "truthy (PStr s) = (s \<noteq> [])"
| "truthy (PList xs) = (xs \<noteq> [])"
| "truthy (PDict kvs) = (kvs \<noteq> [])"

text \<open>\<^verbatim>\<open>d.get(k, default)\<close>: only a dict has the method.\<close>

definition py_get :: "pyval \<Rightarrow> pystr \<Rightarrow> pyval \<Rightarrow> pyerr + pyval" where
  "py_get d k dflt =
     (case d of
        PDict kvs \<Rightarrow> Inr (case map_of kvs k of None \<Rightarrow> dflt | Some v \<Rightarrow> v)
      | _ \<Rightarrow> Inl AttributeError)"

text \<open>Iteration (\<^verbatim>\<open>for x in v\<close>, comprehensions, \<^verbatim>\<open>list.extend\<close>).\<close>

definition py_iter :: "pyval \<Rightarrow> pyerr + pyval list" where
  "py_iter v =
     (case v of
        PList xs \<Rightarrow> Inr xs
      | PStr s \<Rightarrow> Inr (map (\<lambda>c. PStr [c]) s)
      | PDict kvs \<Rightarrow> Inr (map (\<lambda>kv. PStr (fst kv)) kvs)
      | _ \<Rightarrow> Inl TypeError)"

text \<open>\<^verbatim>\<open>len(v)\<close>.\<close>

definition py_len :: "pyval \<Rightarrow> pyerr + nat" where
  "py_len v =
     (case v of
        PList xs \<Rightarrow> Inr (length xs)
      | PStr s \<Rightarrow> Inr (length s)
      | PDict kvs \<Rightarrow> Inr (length kvs)
      | _ \<Rightarrow> Inl TypeError)"

text \<open>\<^verbatim>\<open>v[0]\<close>; the keys of a JSON object are strings, so \<^verbatim>\<open>0\<close> is never a key.\<close>

definition py_first :: "pyval \<Rightarrow> pyerr + pyval" where
  "py_first v =
     (case v of
        PList xs \<Rightarrow> (case xs of [] \<Rightarrow> Inl IndexError | x # _ \<Rightarrow> Inr x)
      | PStr s \<Rightarrow> (case s of [] \<Rightarrow> Inl IndexError | c # _ \<Rightarrow> Inr (PStr [c]))
      | PDict kvs \<Rightarrow> Inl KeyError
      | _ \<Rightarrow> Inl TypeError)"

text \<open>\<^verbatim>\<open>v[:10]\<close>.\<close>

definition py_slice10 :: "pyval \<Rightarrow> pyerr + pyval" where
  "py_slice10 v =
     (case v of
        PStr s \<Rightarrow> Inr (PStr (take 10 s))
      | PList xs \<Rightarrow> Inr (PList (take 10 xs))
      | _ \<Rightarrow> Inl TypeError)"

text \<open>\<^verbatim>\<open>sep.join(parts)\<close>: every part must be a \<^verbatim>\<open>str\<close>.\<close>

fun intersperse :: "pystr \<Rightarrow> pystr list \<Rightarrow> pystr" where
  "intersperse sep [] = []"
| "intersperse sep [x] = x"
| "intersperse sep (x # y # ys) = x @ sep @ intersperse sep (y # ys)"

definition as_str :: "pyval \<Rightarrow> pyerr + pystr" where
  "as_str v = (case v of PStr s \<Rightarrow> Inr s | _ \<Rightarrow> Inl TypeError)"

definition py_join :: "pystr \<Rightarrow> pyval list \<Rightarrow> pyerr + pystr" where
  "py_join sep parts = ebind (emapM as_str parts) (\<lambda>ss. Inr (intersperse sep ss))"

text \<open>\<^verbatim>\<open>s.replace(old, new)\<close> for a one-character \<^verbatim>\<open>old\<close>; only a \<^verbatim>\<open>str\<close> has the method.\<close>

definition replace_chr :: "nat \<Rightarrow> pystr \<Rightarrow> pystr \<Rightarrow> pystr" where
  "replace_chr old new s = concat (map (\<lambda>c. if c = old then new else [c]) s)"

definition py_replace :: "pyval \<Rightarrow> nat \<Rightarrow> pystr \<Rightarrow> pyerr + pystr" where
  "py_replace v old new =
     (case v of PStr s \<Rightarrow> Inr (replace_chr old new s) | _ \<Rightarrow> Inl AttributeError)"

text \<open>\<^verbatim>\<open>str(v)\<close> and \<^verbatim>\<open>f"{v}"\<close>.\<close>

fun str_nat :: "nat \<Rightarrow> pystr" where
  "str_nat n = (if n < 10 then [48 + n] else str_nat (n div 10) @ [48 + n mod 10])"

declare str_nat.simps [simp del]

definition str_int :: "int \<Rightarrow> pystr" where
  "str_int i = (if i < 0 then 45 # str_nat (nat (- i)) else str_nat (nat i))"

fun py_str :: "pyval \<Rightarrow> pyerr + pystr" where
  "py_str PNone = Inr (u ''None'')"
| "py_str (PBool b) = Inr (if b then u ''True'' else u ''False'')"
| "py_str (PInt i) = Inr (str_int i)"
| "py_str (PFloat r) = Inr r"
| "py_str (PStr s) = Inr s"
| "py_str (PList xs) = Inl Unmodelled"
| "py_str (PDict kvs) = Inl Unmodelled"

section \<open>Filename sanitizer\<close>

text \<open>
  \<^verbatim>\<open>re.sub(r'[<>:"/\\|?*]', '', name)\<close> deletes every character of the class;
  \<^verbatim>\<open>name.strip()\<close> then trims the characters for which \<^verbatim>\<open>str.isspace\<close> holds.
\<close>

definition unsafe_chars :: "nat set" where
  "unsafe_chars = {60, 62, 58, 34, 47, 92, 124, 63, 42}"

definition is_space :: "nat \<Rightarrow> bool" where
  "is_space c \<longleftrightarrow>
     (9 \<le> c \<and> c \<le> 13) \<or> (28 \<le> c \<and> c \<le> 32) \<or> c = 133 \<or> c = 160 \<or> c = 5760 \<or>
     (8192 \<le> c \<and> c \<le> 8202) \<or> c = 8232 \<or> c = 8233 \<or> c = 8239 \<or> c = 8287 \<or> c = 12288"

definition strip :: "pystr \<Rightarrow> pystr" where
  "strip s = rev (dropWhile is_space (rev (dropWhile is_space s)))"

definition sanitize_filename :: "pystr \<Rightarrow> pystr" where
  "sanitize_filename name = strip (filter (\<lambda>c. c \<notin> unsafe_chars) name)"

section \<open>Property value extractor\<close>

text \<open>
  \<^verbatim>\<open>extract_property_value(prop)\<close>: the \<^verbatim>\<open>if\<close>/\<^verbatim>\<open>elif\<close> chain on \<^verbatim>\<open>prop.get("type")\<close>,
  in the order of the source. \<^verbatim>\<open>a or b\<close> evaluates \<^verbatim>\<open>b\<close> only when \<^verbatim>\<open>a\<close> is false.
  The check mark is U+2705 (9989), the empty box U+2610 (9744), the arrow U+2192 (8594).
\<close>

definition checkbox_text :: "bool \<Rightarrow> pystr" where
  "checkbox_text checked = (if checked then [9989] else [9744])"

text \<open>The loop over \<^verbatim>\<open>people\<close>, with the list \<^verbatim>\<open>names\<close> it appends to.\<close>

fun people_names :: "pyval list \<Rightarrow> pyval list \<Rightarrow> pyerr + pyval list" where
  "people_names [] names = Inr names"
| "people_names (p # ps) names =
     ebind (py_get p (u ''name'') PNone) (\<lambda>n.
     ebind (if truthy n then Inr n
            else ebind (py_get p (u ''person'') (PDict [])) (\<lambda>person.
                 py_get person (u ''email'') (PStr []))) (\<lambda>name.
     people_names ps (if truthy name then names @ [name] else names)))"

definition number_text :: "pyval \<Rightarrow> pyerr + pyval" where
  "number_text num = (if num \<noteq> PNone then ebind (py_str num) (\<lambda>s. Inr (PStr s)) else Inr (PStr []))"

definition user_text :: "pyval \<Rightarrow> pyerr + pyval" where
  "user_text user =
     ebind (py_get user (u ''name'') (PStr [])) (\<lambda>n.
     if truthy n then Inr n else py_get user (u ''id'') (PStr []))"

definition count_text :: "pyval \<Rightarrow> string \<Rightarrow> pyerr + pyval" where
  "count_text xs suffix =
     ebind (py_len xs) (\<lambda>n. Inr (PStr (u ''('' @ str_nat n @ u suffix)))"

definition extract_formula :: "pyval \<Rightarrow> pyerr + pyval" where
  "extract_formula formula =
     ebind (py_get formula (u ''type'') PNone) (\<lambda>formula_type.
     if formula_type = PStr (u ''string'') then
       ebind (py_get formula (u ''string'') (PStr [])) (\<lambda>s.
       Inr (if truthy s then s else PStr []))
     else if formula_type = PStr (u ''number'') then
       ebind (py_get formula (u ''number'') PNone) number_text
     else if formula_type = PStr (u ''boolean'') then
       ebind (py_get formula (u ''boolean'') PNone) (\<lambda>b.
       Inr (PStr (checkbox_text (truthy b))))
     else if formula_type = PStr (u ''date'') then
       ebind (py_get formula (u ''date'') PNone) (\<lambda>date.
       if truthy date then py_get date (u ''start'') (PStr []) else Inr (PStr []))
     else Inr (PStr []))"

definition extract_rollup :: "pyval \<Rightarrow> pyerr + pyval" where
  "extract_rollup rollup =
     ebind (py_get rollup (u ''type'') PNone) (\<lambda>rollup_type.
     if rollup_type = PStr (u ''number'') then
       ebind (py_get rollup (u ''number'') PNone) number_text
     else if rollup_type = PStr (u ''array'') then
       ebind (py_get rollup (u ''array'') (PList [])) (\<lambda>arr. count_text arr '' items)'')
     else Inr (PStr []))"

text \<open>\<^verbatim>\<open>sep.join([t.get(key, "") for t in items])\<close>.\<close>

definition join_field :: "pystr \<Rightarrow> pystr \<Rightarrow> pyval \<Rightarrow> pyerr + pystr" where
  "join_field sep key items =
     ebind (py_iter items) (\<lambda>ts.
     ebind (emapM (\<lambda>t. py_get t key (PStr [])) ts) (\<lambda>parts.
     py_join sep parts))"

definition ret_str :: "pyerr + pystr \<Rightarrow> pyerr + pyval" where
  "ret_str r = ebind r (\<lambda>s. Inr (PStr s))"

definition extract_property_value :: "pyval \<Rightarrow> pyerr + pyval" where
  "extract_property_value prop =
     ebind (py_get prop (u ''type'') PNone) (\<lambda>prop_type.
     if prop_type = PStr (u ''title'') then
       ebind (py_get prop (u ''title'') (PList [])) (\<lambda>ts. ret_str (join_field [] (u ''plain_text'') ts))
     else if prop_type = PStr (u ''rich_text'') then
       ebind (py_get prop (u ''rich_text'') (PList [])) (\<lambda>ts. ret_str (join_field [] (u ''plain_text'') ts))
     else if prop_type = PStr (u ''number'') then
       ebind (py_get prop (u ''number'') PNone) number_text
     else if prop_type = PStr (u ''select'') then
       ebind (py_get prop (u ''select'') PNone) (\<lambda>select.
       if truthy select then py_get select (u ''name'') (PStr []) else Inr (PStr []))
     else if prop_type = PStr (u ''multi_select'') then
       ebind (py_get prop (u ''multi_select'') (PList [])) (\<lambda>options.
       ret_str (join_field (u '', '') (u ''name'') options))
     else if prop_type = PStr (u ''status'') then
       ebind (py_get prop (u ''status'') PNone) (\<lambda>status.
       if truthy status then py_get status (u ''name'') (PStr []) else Inr (PStr []))
     else if prop_type = PStr (u ''date'') then
       ebind (py_get prop (u ''date'') PNone) (\<lambda>date.
       if truthy date then
         ebind (py_get date (u ''start'') (PStr [])) (\<lambda>start.
         ebind (py_get date (u ''end'') PNone) (\<lambda>end_v.
         if truthy end_v then
           ebind (py_str start) (\<lambda>s. ebind (py_str end_v) (\<lambda>e.
           Inr (PStr (s @ [32, 8594, 32] @ e))))
         else Inr start))
       else Inr (PStr []))
     else if prop_type = PStr (u ''people'') then
       ebind (py_get prop (u ''people'') (PList [])) (\<lambda>people.
       ebind (py_iter people) (\<lambda>ps.
       ebind (people_names ps []) (\<lambda>names.
       ret_str (py_join (u '', '') names))))
     else if prop_type = PStr (u ''checkbox'') then
       ebind (py_get prop (u ''checkbox'') (PBool False)) (\<lambda>checked.
       Inr (PStr (checkbox_text (truthy checked))))
     else if prop_type = PStr (u ''url'') then
       ebind (py_get prop (u ''url'') (PStr [])) (\<lambda>v. Inr (if truthy v then v else PStr []))
     else if prop_type = PStr (u ''email'') then
       ebind (py_get prop (u ''email'') (PStr [])) (\<lambda>v. Inr (if truthy v then v else PStr []))
     else if prop_type = PStr (u ''phone_number'') then
       ebind (py_get prop (u ''phone_number'') (PStr [])) (\<lambda>v.
       Inr (if truthy v then v else PStr []))
     else if prop_type = PStr (u ''formula'') then
       ebind (py_get prop (u ''formula'') (PDict [])) extract_formula
     else if prop_type = PStr (u ''relation'') then
       ebind (py_get prop (u ''relation'') (PList [])) (\<lambda>relations.
       count_text relations '' items)'')
     else if prop_type = PStr (u ''rollup'') then
       ebind (py_get prop (u ''rollup'') (PDict [])) extract_rollup
     else if prop_type = PStr (u ''created_time'') then
       ebind (py_get prop (u ''created_time'') (PStr [])) py_slice10
     else if prop_type = PStr (u ''created_by'') then
       ebind (py_get prop (u ''created_by'') (PDict [])) user_text
     else if prop_type = PStr (u ''last_edited_time'') then
       ebind (py_get prop (u ''last_edited_time'') (PStr [])) py_slice10
     else if prop_type = PStr (u ''last_edited_by'') then
       ebind (py_get prop (u ''last_edited_by'') (PDict [])) user_text
     else if prop_type = PStr (u ''files'') then
       ebind (py_get prop (u ''files'') (PList [])) (\<lambda>files. count_text files '' files)'')
     else
       ebind (py_str prop_type) (\<lambda>t. Inr (PStr (u ''['' @ t @ u '']''))))"

section \<open>The remote store, the file system and the console\<close>

text \<open>
  The Notion client, \<^verbatim>\<open>requests\<close>, \<^verbatim>\<open>urllib.parse\<close> and \<^verbatim>\<open>hashlib\<close> are outside the
  program: they are the fields of an environment. A call that raises returns \<open>Inl\<close>.
  The remote store does not change during an export, so a listing call is a function of
  the block identifier and the cursor. \<open>requests_get\<close> is \<^verbatim>\<open>requests.get\<close> followed by
  \<^verbatim>\<open>raise_for_status\<close> and \<^verbatim>\<open>.content\<close>; \<open>urlparse_path\<close> is \<^verbatim>\<open>urlparse(url).path\<close>;
  \<open>md5_hexdigest\<close> is \<^verbatim>\<open>hashlib.md5(url.encode()).hexdigest()\<close>.
\<close>

record env =
  pages_retrieve :: "pyval \<Rightarrow> pyerr + pyval"
  databases_retrieve :: "pyval \<Rightarrow> pyerr + pyval"
  blocks_children_list :: "pyval \<Rightarrow> pyval \<Rightarrow> pyerr + pyval"
  comments_list :: "pyval \<Rightarrow> pyval \<Rightarrow> pyerr + pyval"
  databases_query :: "pyval \<Rightarrow> pyval \<Rightarrow> pyerr + pyval"
  requests_get :: "pyval \<Rightarrow> pyerr + nat list"
  urlparse_path :: "pyval \<Rightarrow> pyerr + pystr"
  unquote :: "pystr \<Rightarrow> pystr"
  md5_hexdigest :: "pyval \<Rightarrow> pyerr + pystr"
  DOWNLOAD_IMAGES :: bool
  ROOT_PAGE_ID :: pystr

text \<open>
  A path is the list of its parts, as \<^verbatim>\<open>pathlib\<close> keeps them: \<^verbatim>\<open>p / s\<close> splits \<^verbatim>\<open>s\<close> at
  \<^verbatim>\<open>/\<close>, drops the empty parts and the parts \<^verbatim>\<open>.\<close>, and starts again from the root when
  \<^verbatim>\<open>s\<close> begins with \<^verbatim>\<open>/\<close>. The file system primitives (\<^verbatim>\<open>mkdir\<close>, \<^verbatim>\<open>write_text\<close>,
  \<^verbatim>\<open>open\<close>) are taken to succeed. The console is the list of the \<^verbatim>\<open>print\<close> calls made,
  each with the values it formats.
\<close>

type_synonym path = "pystr list"

fun split_on :: "nat \<Rightarrow> pystr \<Rightarrow> pystr list" where
  "split_on d [] = [[]]"
| "split_on d (c # cs) =
     (if c = d then [] # split_on d cs
      else (case split_on d cs of [] \<Rightarrow> [[c]] | p # ps \<Rightarrow> (c # p) # ps))"

definition path_join :: "path \<Rightarrow> pystr \<Rightarrow> path" where
  "path_join p s =
     (let parts = filter (\<lambda>x. x \<noteq> [] \<and> x \<noteq> [46]) (split_on 47 s)
      in if s \<noteq> [] \<and> hd s = 47 then [47] # parts else p @ parts)"

datatype content =
    Text pystr
  | Bytes "nat list"
  | CsvRows "pyval list list"

datatype event =
    EvPage nat pystr
  | EvPageError pyval pyerr
  | EvDatabase nat pyval
  | EvDatabaseError pyval pyerr
  | EvImageSkipped pystr
  | EvImageDownload pystr
  | EvImageError pyerr
  | EvCommentsError pyerr
  | EvTableError pyerr
  | EvCsvExported pystr
  | EvText pystr

record world =
  fs_files :: "path \<rightharpoonup> content"
  fs_dirs :: "path set"
  writes :: "path list"
  console :: "event list"

definition print_ev :: "event \<Rightarrow> world \<Rightarrow> world" where
  "print_ev e w = w\<lparr>console := console w @ [e]\<rparr>"

definition mkdir_p :: "path \<Rightarrow> world \<Rightarrow> world" where
  "mkdir_p p w = w\<lparr>fs_dirs := fs_dirs w \<union> set (map (\<lambda>n. take n p) [1..<Suc (length p)])\<rparr>"

definition write_file :: "path \<Rightarrow> content \<Rightarrow> world \<Rightarrow> world" where
  "write_file p c w = w\<lparr>fs_files := (fs_files w)(p \<mapsto> c), writes := writes w @ [p]\<rparr>"

definition path_exists :: "path \<Rightarrow> world \<Rightarrow> bool" where
  "path_exists p w \<longleftrightarrow> fs_files w p \<noteq> None \<or> p \<in> fs_dirs w"

section \<open>Page title and property table\<close>

definition py_items :: "pyval \<Rightarrow> pyerr + (pystr \<times> pyval) list" where
  "py_items d = (case d of PDict kvs \<Rightarrow> Inr kvs | _ \<Rightarrow> Inl AttributeError)"

text \<open>\<^verbatim>\<open>get_page_title\<close>: the loop over \<^verbatim>\<open>props.values()\<close>.\<close>

fun find_title :: "pyval list \<Rightarrow> pyerr + pyval" where
  "find_title [] = Inr (PStr (u ''Untitled''))"
| "find_title (prop # props) =
     ebind (py_get prop (u ''type'') PNone) (\<lambda>t.
     if t = PStr (u ''title'') then
       ebind (py_get prop (u ''title'') (PList [])) (\<lambda>title_list.
       if truthy title_list then
         ebind (py_first title_list) (\<lambda>t0. py_get t0 (u ''plain_text'') (PStr (u ''Untitled'')))
       else find_title props)
     else find_title props)"

definition get_page_title :: "pyval \<Rightarrow> pyerr + pyval" where
  "get_page_title page =
     ebind (py_get page (u ''properties'') (PDict [])) (\<lambda>props.
     ebind (py_items props) (\<lambda>kvs. find_title (map snd kvs)))"

text \<open>
  \<^verbatim>\<open>get_page_properties_markdown\<close>: the loop that collects \<^verbatim>\<open>prop_items\<close>, then the
  stable sort by name and the three rows of the table.
\<close>

fun collect_prop_items ::
  "(pystr \<times> pyval) list \<Rightarrow> (pystr \<times> pystr) list \<Rightarrow> pyerr + (pystr \<times> pystr) list" where
  "collect_prop_items [] prop_items = Inr prop_items"
| "collect_prop_items ((name, prop) # rest) prop_items =
     ebind (py_get prop (u ''type'') PNone) (\<lambda>t.
     if t = PStr (u ''title'') then collect_prop_items rest prop_items
     else
       ebind (extract_property_value prop) (\<lambda>v.
       if truthy v then
         ebind (py_replace v 124 [92, 124]) (\<lambda>v'.
         collect_prop_items rest (prop_items @ [(replace_chr 124 [92, 124] name, v')]))
       else collect_prop_items rest prop_items))"

definition table_row_text :: "pystr list \<Rightarrow> pystr" where
  "table_row_text cells = u ''| '' @ intersperse (u '' | '') cells @ u '' |''"

definition properties_table :: "(pystr \<times> pystr) list \<Rightarrow> pystr" where
  "properties_table prop_items =
     (let sorted_items = sort_key fst prop_items;
          headers = map fst sorted_items;
          vals = map snd sorted_items
      in table_row_text headers @ [10] @
         table_row_text (replicate (length headers) (u ''---'')) @ [10] @
         table_row_text vals @ u ''\<newline>\<newline>---\<newline>'')"

definition get_page_properties_markdown :: "pyval \<Rightarrow> pyerr + pystr" where
  "get_page_properties_markdown page =
     ebind (py_get page (u ''properties'') (PDict [])) (\<lambda>props.
     if \<not> truthy props then Inr []
     else
       ebind (py_items props) (\<lambda>kvs.
       ebind (collect_prop_items kvs []) (\<lambda>prop_items.
       if prop_items = [] then Inr [] else Inr (properties_table prop_items))))"

section \<open>Pagination\<close>

text \<open>
  The loop of \<^verbatim>\<open>get_page_children\<close>, of \<^verbatim>\<open>get_page_comments\<close> and of
  \<^verbatim>\<open>process_database\<close>, which differ in the listing call only:
  \<^verbatim>\<open>
    while True:
        response = list_call(start_cursor=cursor)
        items.extend(response.get("results", []))
        if not response.get("has_more"): break
        cursor = response.get("next_cursor")
  \<close>
  The loop runs for as long as the source reports more pages, so it is a partial
  function: \<open>None\<close> is the run that never ends.
\<close>

partial_function (option) drain ::
  "(pyval \<Rightarrow> pyerr + pyval) \<Rightarrow> pyval \<Rightarrow> pyval list \<Rightarrow> (pyerr + pyval list) option" where
  "drain list_call cursor items =
     (case list_call cursor of
        Inl e \<Rightarrow> Some (Inl e)
      | Inr response \<Rightarrow>
          (case ebind (py_get response (u ''results'') (PList [])) py_iter of
             Inl e \<Rightarrow> Some (Inl e)
           | Inr results \<Rightarrow>
               (case py_get response (u ''has_more'') PNone of
                  Inl e \<Rightarrow> Some (Inl e)
                | Inr has_more \<Rightarrow>
                    if \<not> truthy has_more then Some (Inr (items @ results))
                    else
                      (case py_get response (u ''next_cursor'') PNone of
                         Inl e \<Rightarrow> Some (Inl e)
                       | Inr next_cursor \<Rightarrow> drain list_call next_cursor (items @ results)))))"

declare drain.simps [code]

definition get_page_children :: "env \<Rightarrow> pyval \<Rightarrow> (pyerr + pyval list) option" where
  "get_page_children e page_id = drain (blocks_children_list e page_id) PNone []"

section \<open>Asset fetcher\<close>

text \<open>
  \<^verbatim>\<open>download_image\<close>: the statements of the \<^verbatim>\<open>try\<close> block up to the file name, then the
  check for an existing file and the download. Whatever is raised inside the block is
  caught: the function prints the exception and returns the URL it was given.
\<close>

definition image_filename :: "env \<Rightarrow> pyval \<Rightarrow> pyerr + pystr" where
  "image_filename e url =
     ebind (urlparse_path e url) (\<lambda>parsed_path.
     let path_parts = split_on 47 parsed_path in
     ebind (if length path_parts \<ge> 2
            then Inr (path_parts ! (length path_parts - 2), unquote e (last path_parts))
            else ebind (md5_hexdigest e url) (\<lambda>h. Inr (take 12 h, u ''image.png'')))
       (\<lambda>(image_uuid, original_name).
     let safe_name = map (\<lambda>c. if c \<in> unsafe_chars then 95 else c) original_name
     in Inr (image_uuid @ [95] @ safe_name)))"

definition download_image :: "env \<Rightarrow> pyval \<Rightarrow> path \<Rightarrow> world \<Rightarrow> pyval \<times> world" where
  "download_image e url output_dir w =
     (case image_filename e url of
        Inl err \<Rightarrow> (url, print_ev (EvImageError err) w)
      | Inr filename \<Rightarrow>
          let images_dir = path_join output_dir (u ''images'');
              w1 = mkdir_p images_dir w;
              image_path = path_join images_dir filename
          in if path_exists image_path w1
             then (PStr (u ''images/'' @ filename), print_ev (EvImageSkipped filename) w1)
             else
               let w2 = print_ev (EvImageDownload filename) w1
               in (case requests_get e url of
                     Inl err \<Rightarrow> (url, print_ev (EvImageError err) w2)
                   | Inr data \<Rightarrow>
                       (PStr (u ''images/'' @ filename), write_file image_path (Bytes data) w2)))"

section \<open>Rich text and block renderer\<close>

definition wrap_if :: "bool \<Rightarrow> pystr \<Rightarrow> pystr \<Rightarrow> pyval \<Rightarrow> pyerr + pyval" where
  "wrap_if c pre post content =
     (if c then ebind (py_str content) (\<lambda>s. Inr (PStr (pre @ s @ post))) else Inr content)"

text \<open>One round of the loop of \<^verbatim>\<open>rich_text_to_markdown\<close>; the backquote is code point 96.\<close>

definition rich_text_run :: "pyval \<Rightarrow> pyerr + pyval" where
  "rich_text_run text =
     ebind (py_get text (u ''plain_text'') (PStr [])) (\<lambda>content.
     ebind (py_get text (u ''annotations'') (PDict [])) (\<lambda>annotations.
     ebind (py_get annotations (u ''bold'') PNone) (\<lambda>bold.
     ebind (wrap_if (truthy bold) (u ''**'') (u ''**'') content) (\<lambda>content.
     ebind (py_get annotations (u ''italic'') PNone) (\<lambda>italic.
     ebind (wrap_if (truthy italic) (u ''*'') (u ''*'') content) (\<lambda>content.
     ebind (py_get annotations (u ''strikethrough'') PNone) (\<lambda>strikethrough.
     ebind (wrap_if (truthy strikethrough) (u ''~~'') (u ''~~'') content) (\<lambda>content.
     ebind (py_get annotations (u ''code'') PNone) (\<lambda>code.
     ebind (wrap_if (truthy code) [96] [96] content) (\<lambda>content.
     ebind (py_get text (u ''href'') PNone) (\<lambda>href.
     if truthy href then
       ebind (py_str content) (\<lambda>c. ebind (py_str href) (\<lambda>h.
       Inr (PStr (u ''['' @ c @ u '']('' @ h @ u '')''))))
     else Inr content)))))))))))"

definition rich_text_to_markdown :: "pyval \<Rightarrow> pyerr + pystr" where
  "rich_text_to_markdown rich_texts =
     ebind (py_iter rich_texts) (\<lambda>ts.
     ebind (emapM rich_text_run ts) (\<lambda>result.
     py_join [] result))"

text \<open>\<^verbatim>\<open>block.get(kind, {}).get(key, default)\<close>.\<close>

definition block_field :: "pyval \<Rightarrow> pystr \<Rightarrow> pystr \<Rightarrow> pyval \<Rightarrow> pyerr + pyval" where
  "block_field block kind key dflt =
     ebind (py_get block kind (PDict [])) (\<lambda>d. py_get d key dflt)"

text \<open>The branches that render \<^verbatim>\<open>prefix + rich_text_to_markdown(texts) + suffix\<close>.\<close>

definition rich_block :: "pyval \<Rightarrow> pystr \<Rightarrow> pystr \<Rightarrow> pystr \<Rightarrow> pyerr + pystr" where
  "rich_block block kind prefix suffix =
     ebind (block_field block kind (u ''rich_text'') (PList [])) (\<lambda>texts.
     ebind (rich_text_to_markdown texts) (\<lambda>t. Inr (prefix @ t @ suffix)))"

text \<open>
  The branches \<^verbatim>\<open>child_page\<close> (icon U+1F4C4, extension \<^verbatim>\<open>.md\<close>) and \<^verbatim>\<open>child_database\<close>
  (icon U+1F5C4 U+FE0F, extension \<^verbatim>\<open>.csv\<close>).
\<close>

definition child_link :: "pyval \<Rightarrow> pystr \<Rightarrow> pystr \<Rightarrow> pystr \<Rightarrow> pyval \<Rightarrow> pyerr + pystr" where
  "child_link block kind icon ext parent_title =
     ebind (block_field block kind (u ''title'') (PStr (u ''Untitled''))) (\<lambda>title.
     ebind (py_get block (u ''id'') (PStr [])) (\<lambda>block_id.
     ebind (py_replace block_id 45 []) (\<lambda>child_id.
     if truthy parent_title \<and> child_id \<noteq> [] then
       ebind (as_str parent_title) (\<lambda>pt.
       ebind (as_str title) (\<lambda>t.
       let safe_parent = sanitize_filename pt;
           safe_title = sanitize_filename t;
           link_path = safe_parent @ [47] @ safe_title @ u ''%20'' @ child_id @ ext
       in Inr (icon @ u '' ['' @ t @ u '']('' @ link_path @ u '')\<newline>'')))
     else
       ebind (py_str title) (\<lambda>t. Inr (icon @ u '' ['' @ t @ u '']\<newline>'')))))"

definition image_block ::
  "env \<Rightarrow> pyval \<Rightarrow> path option \<Rightarrow> world \<Rightarrow> (pyerr + pystr) \<times> world" where
  "image_block e block output_dir w =
     (case ebind (py_get block (u ''image'') (PDict [])) (\<lambda>img.
           ebind (py_get img (u ''type'') PNone) (\<lambda>image_type.
           if image_type = PStr (u ''external'') then
             ebind (block_field img (u ''external'') (u ''url'') (PStr [])) (\<lambda>url.
             Inr (img, url, False))
           else
             ebind (block_field img (u ''file'') (u ''url'') (PStr [])) (\<lambda>url.
             Inr (img, url, True)))) of
        Inl err \<Rightarrow> (Inl err, w)
      | Inr (img, url, internal) \<Rightarrow>
          let (image_path, w') =
                (case output_dir of
                   Some od \<Rightarrow>
                     if internal \<and> DOWNLOAD_IMAGES e \<and> truthy url
                     then download_image e url od w else (url, w)
                 | None \<Rightarrow> (url, w))
          in (ebind (py_get img (u ''caption'') (PList [])) (\<lambda>cap.
              ebind (rich_text_to_markdown cap) (\<lambda>caption.
              ebind (py_str image_path) (\<lambda>ip.
              Inr (u ''!['' @ caption @ u '']('' @ ip @ u '')\<newline>'')))), w'))"

text \<open>
  \<^verbatim>\<open>convert_table_block\<close>: the loop over \<^verbatim>\<open>enumerate(rows)\<close> with the list \<^verbatim>\<open>md_rows\<close>;
  the body of the \<^verbatim>\<open>try\<close> block; the function. The rows are listed with one call and no
  cursor.
\<close>

fun table_rows :: "nat \<Rightarrow> pyval list \<Rightarrow> pystr list \<Rightarrow> pyerr + pystr list" where
  "table_rows i [] md_rows = Inr md_rows"
| "table_rows i (row # rows) md_rows =
     ebind (py_get row (u ''type'') PNone) (\<lambda>t.
     if t \<noteq> PStr (u ''table_row'') then table_rows (Suc i) rows md_rows
     else
       ebind (block_field row (u ''table_row'') (u ''cells'') (PList [])) (\<lambda>cells.
       ebind (py_iter cells) (\<lambda>cs.
       ebind (emapM (\<lambda>cell. ebind (rich_text_to_markdown cell) (\<lambda>cell_text.
                Inr (replace_chr 124 [92, 124] cell_text))) cs) (\<lambda>cell_texts.
       let md_row = table_row_text cell_texts;
           separator = table_row_text (replicate (length cell_texts) (u ''---''))
       in table_rows (Suc i) rows
            (if i = 0 then md_rows @ [md_row, separator] else md_rows @ [md_row])))))"

definition table_body :: "env \<Rightarrow> pyval \<Rightarrow> pyerr + pystr" where
  "table_body e block_id =
     ebind (blocks_children_list e block_id PNone) (\<lambda>rows_response.
     ebind (py_get rows_response (u ''results'') (PList [])) (\<lambda>rows.
     if \<not> truthy rows then Inr (u ''[Empty Table]\<newline>'')
     else
       ebind (py_iter rows) (\<lambda>rs.
       ebind (table_rows 0 rs []) (\<lambda>md_rows.
       Inr (intersperse [10] md_rows @ [10, 10])))))"

definition convert_table_block :: "env \<Rightarrow> pyval \<Rightarrow> world \<Rightarrow> (pyerr + pystr) \<times> world" where
  "convert_table_block e block w =
     (case ebind (py_get block (u ''id'') PNone) (\<lambda>block_id.
           ebind (py_get block (u ''table'') (PDict [])) (\<lambda>table_info.
           ebind (py_get table_info (u ''has_column_header'') (PBool False)) (\<lambda>has_column_header.
           ebind (py_get table_info (u ''has_row_header'') (PBool False)) (\<lambda>has_row_header.
           Inr block_id)))) of
        Inl err \<Rightarrow> (Inl err, w)
      | Inr block_id \<Rightarrow>
          (case table_body e block_id of
             Inl err \<Rightarrow> (Inr (u ''[Table conversion error]\<newline>''), print_ev (EvTableError err) w)
           | Inr md \<Rightarrow> (Inr md, w)))"

text \<open>
  \<^verbatim>\<open>block_to_markdown(block, output_dir, parent_title)\<close>: the chain on
  \<^verbatim>\<open>block.get("type")\<close>, in the order of the source. Only the image branch (a download)
  and the table branch (a printed error) touch the world. The bulb is U+1F4A1, the link
  sign U+1F517.
\<close>

definition block_to_markdown ::
  "env \<Rightarrow> pyval \<Rightarrow> path option \<Rightarrow> pyval \<Rightarrow> world \<Rightarrow> (pyerr + pystr) \<times> world" where
  "block_to_markdown e block output_dir parent_title w =
     (case py_get block (u ''type'') PNone of
        Inl err \<Rightarrow> (Inl err, w)
      | Inr block_type \<Rightarrow>
          if block_type = PStr (u ''paragraph'') then
            (rich_block block (u ''paragraph'') [] [10], w)
          else if block_type = PStr (u ''heading_1'') then
            (rich_block block (u ''heading_1'') (u ''# '') [10], w)
          else if block_type = PStr (u ''heading_2'') then
            (rich_block block (u ''heading_2'') (u ''## '') [10], w)
          else if block_type = PStr (u ''heading_3'') then
            (rich_block block (u ''heading_3'') (u ''### '') [10], w)
          else if block_type = PStr (u ''bulleted_list_item'') then
            (rich_block block (u ''bulleted_list_item'') (u ''- '') [10], w)
          else if block_type = PStr (u ''numbered_list_item'') then
            (rich_block block (u ''numbered_list_item'') (u ''1. '') [10], w)
          else if block_type = PStr (u ''to_do'') then
            (ebind (block_field block (u ''to_do'') (u ''rich_text'') (PList [])) (\<lambda>texts.
             ebind (block_field block (u ''to_do'') (u ''checked'') (PBool False)) (\<lambda>checked.
             let checkbox = (if truthy checked then u ''[x]'' else u ''[ ]'')
             in ebind (rich_text_to_markdown texts) (\<lambda>t.
                Inr (u ''- '' @ checkbox @ [32] @ t @ [10])))), w)
          else if block_type = PStr (u ''toggle'') then
            (rich_block block (u ''toggle'') (u ''<details><summary>'')
               (u ''</summary>\<newline></details>\<newline>''), w)
          else if block_type = PStr (u ''code'') then
            (ebind (block_field block (u ''code'') (u ''rich_text'') (PList [])) (\<lambda>texts.
             ebind (block_field block (u ''code'') (u ''language'') (PStr [])) (\<lambda>language.
             ebind (rich_text_to_markdown texts) (\<lambda>code.
             ebind (py_str language) (\<lambda>lang.
             Inr ([96, 96, 96] @ lang @ [10] @ code @ [10, 96, 96, 96, 10]))))), w)
          else if block_type = PStr (u ''quote'') then
            (rich_block block (u ''quote'') (u ''> '') [10], w)
          else if block_type = PStr (u ''divider'') then
            (Inr (u ''---\<newline>''), w)
          else if block_type = PStr (u ''callout'') then
            (ebind (block_field block (u ''callout'') (u ''rich_text'') (PList [])) (\<lambda>texts.
             ebind (block_field block (u ''callout'') (u ''icon'') (PDict [])) (\<lambda>icon.
             ebind (if truthy icon then py_get icon (u ''emoji'') (PStr [128161])
                    else Inr (PStr [128161])) (\<lambda>emoji.
             ebind (py_str emoji) (\<lambda>em.
             ebind (rich_text_to_markdown texts) (\<lambda>t.
             Inr (u ''> '' @ em @ [32] @ t @ [10])))))), w)
          else if block_type = PStr (u ''child_page'') then
            (child_link block (u ''child_page'') [128196] (u ''.md'') parent_title, w)
          else if block_type = PStr (u ''child_database'') then
            (child_link block (u ''child_database'') [128452, 65039] (u ''.csv'') parent_title, w)
          else if block_type = PStr (u ''image'') then
            image_block e block output_dir w
          else if block_type = PStr (u ''bookmark'') then
            (ebind (block_field block (u ''bookmark'') (u ''url'') (PStr [])) (\<lambda>url.
             ebind (py_str url) (\<lambda>s. Inr ([128279, 32] @ s @ [10]))), w)
          else if block_type = PStr (u ''table'') then
            convert_table_block e block w
          else
            (ebind (py_str block_type) (\<lambda>t. Inr (u ''['' @ t @ u '']\<newline>'')), w))"

section \<open>Comments and page content\<close>

text \<open>
  \<^verbatim>\<open>get_page_comments\<close>: one line per comment, then the joined block. The heading is
  \<^verbatim>\<open>## \<close>, U+1F4AC, a space and four katakana (12467, 12513, 12531, 12488). Whatever
  is raised inside the function is caught: it prints the exception and returns \<^verbatim>\<open>""\<close>.
\<close>

definition comment_line :: "pyval \<Rightarrow> pyerr + pystr" where
  "comment_line comment =
     ebind (py_get comment (u ''created_by'') (PDict [])) (\<lambda>created_by.
     ebind (py_get created_by (u ''name'') PNone) (\<lambda>n.
     ebind (if truthy n then Inr n else py_get created_by (u ''id'') (PStr (u ''Unknown'')))
       (\<lambda>user_name.
     ebind (ebind (py_get comment (u ''created_time'') (PStr [])) py_slice10) (\<lambda>created_time.
     ebind (py_get comment (u ''rich_text'') (PList [])) (\<lambda>rich_text.
     ebind (join_field [] (u ''plain_text'') rich_text) (\<lambda>content.
     let content_lines = split_on 10 content;
         formatted_content = intersperse (u ''\<newline>> '') content_lines
     in ebind (py_str user_name) (\<lambda>un.
        ebind (py_str created_time) (\<lambda>ct.
        Inr (u ''> **'' @ un @ u ''** ('' @ ct @ u ''): '' @ formatted_content @ [10])))))))))"

definition comments_markdown :: "pyval list \<Rightarrow> pyerr + pystr" where
  "comments_markdown comments =
     (if comments = [] then Inr []
      else
        ebind (emapM comment_line comments) (\<lambda>ls.
        Inr (intersperse [10]
               ([u ''## '' @ [128172, 32, 12467, 12513, 12531, 12488, 10]] @ ls @
                [u ''\<newline>---\<newline>'']))))"

definition get_page_comments :: "env \<Rightarrow> pyval \<Rightarrow> world \<Rightarrow> (pystr \<times> world) option" where
  "get_page_comments e page_id w =
     (case drain (comments_list e page_id) PNone [] of
        None \<Rightarrow> None
      | Some (Inl err) \<Rightarrow> Some ([], print_ev (EvCommentsError err) w)
      | Some (Inr comments) \<Rightarrow>
          (case comments_markdown comments of
             Inl err \<Rightarrow> Some ([], print_ev (EvCommentsError err) w)
           | Inr md \<Rightarrow> Some (md, w)))"

text \<open>\<^verbatim>\<open>fetch_page_content\<close>: the loop over the blocks with the list \<^verbatim>\<open>content_lines\<close>.\<close>

fun render_blocks ::
  "env \<Rightarrow> pyval list \<Rightarrow> path option \<Rightarrow> pyval \<Rightarrow> pystr list \<Rightarrow> world \<Rightarrow>
   (pyerr + pystr) \<times> world" where
  "render_blocks e [] output_dir parent_title content_lines w =
     (Inr (intersperse [10] content_lines), w)"
| "render_blocks e (block # blocks) output_dir parent_title content_lines w =
     (case block_to_markdown e block output_dir parent_title w of
        (Inl err, w') \<Rightarrow> (Inl err, w')
      | (Inr md, w') \<Rightarrow>
          render_blocks e blocks output_dir parent_title (content_lines @ [md]) w')"

definition fetch_page_content ::
  "env \<Rightarrow> pyval \<Rightarrow> path option \<Rightarrow> pyval \<Rightarrow> world \<Rightarrow> ((pyerr + pystr) \<times> world) option" where
  "fetch_page_content e page_id output_dir parent_title w =
     (case get_page_children e page_id of
        None \<Rightarrow> None
      | Some (Inl err) \<Rightarrow> Some (Inl err, w)
      | Some (Inr blocks) \<Rightarrow> Some (render_blocks e blocks output_dir parent_title [] w))"

section \<open>Tabular exporter\<close>

text \<open>
  \<^verbatim>\<open>export_database_to_csv\<close>. The header loop runs over the items of the first record's
  properties and keeps the name of the last title-typed one in \<^verbatim>\<open>title_prop\<close>;
  \<open>csv_fieldnames\<close> is the list \<^verbatim>\<open>headers\<close> after \<^verbatim>\<open>headers.insert(0, title_prop)\<close>, and
  \<open>csv_cell\<close> is one round of the loop that fills \<^verbatim>\<open>row\<close>. A row is
  the list of the cells in the order of \<^verbatim>\<open>headers\<close>; the file holds the rows handed to
  \<^verbatim>\<open>csv.DictWriter\<close>, the header row first. The file is opened before the first row is
  computed, so a row that raises leaves the rows written so far.
\<close>

fun csv_headers ::
  "(pystr \<times> pyval) list \<Rightarrow> pystr list \<Rightarrow> pyval \<Rightarrow> pyerr + pystr list \<times> pyval" where
  "csv_headers [] headers title_prop = Inr (headers, title_prop)"
| "csv_headers ((name, prop) # rest) headers title_prop =
     ebind (py_get prop (u ''type'') PNone) (\<lambda>t.
     if t = PStr (u ''title'') then csv_headers rest headers (PStr name)
     else csv_headers rest (headers @ [name]) title_prop)"

definition csv_fieldnames :: "pyval \<Rightarrow> pyerr + pystr list" where
  "csv_fieldnames first_record =
     ebind (py_get first_record (u ''properties'') (PDict [])) (\<lambda>props.
     ebind (py_items props) (\<lambda>kvs.
     ebind (csv_headers kvs [] PNone) (\<lambda>(headers, title_prop).
     Inr (if truthy title_prop
          then (case title_prop of PStr name \<Rightarrow> name # headers | _ \<Rightarrow> headers)
          else headers))))"

definition csv_cell :: "pyval \<Rightarrow> pystr \<Rightarrow> pyerr + pyval" where
  "csv_cell record name =
     ebind (py_get record (u ''properties'') (PDict [])) (\<lambda>props.
     ebind (py_get props name (PDict [])) extract_property_value)"

definition csv_row :: "pystr list \<Rightarrow> pyval \<Rightarrow> pyerr + pyval list" where
  "csv_row headers record = emapM (csv_cell record) headers"

fun csv_rows :: "pystr list \<Rightarrow> pyval list \<Rightarrow> pyval list list \<Rightarrow> pyerr option \<times> pyval list list" where
  "csv_rows headers [] written = (None, written)"
| "csv_rows headers (record # records) written =
     (case csv_row headers record of
        Inl err \<Rightarrow> (Some err, written)
      | Inr row \<Rightarrow> csv_rows headers records (written @ [row]))"

definition export_database_to_csv ::
  "pyval list \<Rightarrow> pystr \<Rightarrow> pystr \<Rightarrow> path \<Rightarrow> world \<Rightarrow> (pyerr + unit) \<times> world" where
  "export_database_to_csv records title db_id output_path w =
     (case records of
        [] \<Rightarrow> (Inr (), w)
      | first_record # _ \<Rightarrow>
          (case csv_fieldnames first_record of
             Inl err \<Rightarrow> (Inl err, w)
           | Inr headers \<Rightarrow>
               let csv_filename = sanitize_filename title @ [32] @ db_id @ u ''.csv'';
                   csv_path = path_join output_path csv_filename
               in (case csv_rows headers records [map PStr headers] of
                     (Some err, written) \<Rightarrow> (Inl err, write_file csv_path (CsvRows written) w)
                   | (None, written) \<Rightarrow>
                       (Inr (), print_ev (EvCsvExported csv_filename)
                                  (write_file csv_path (CsvRows written) w)))))"

section \<open>Export orchestrator\<close>

text \<open>
  A \<^verbatim>\<open>for\<close> loop whose body may raise: the exception ends the loop. \<open>None\<close> is a
  body that does not return.
\<close>

fun for_each ::
  "('a \<Rightarrow> world \<Rightarrow> ((pyerr + unit) \<times> world) option) \<Rightarrow> 'a list \<Rightarrow> world \<Rightarrow>
   ((pyerr + unit) \<times> world) option" where
  "for_each body [] w = Some (Inr (), w)"
| "for_each body (x # xs) w =
     (case body x w of
        None \<Rightarrow> None
      | Some (Inl err, w') \<Rightarrow> Some (Inl err, w')
      | Some (Inr _, w') \<Rightarrow> for_each body xs w')"

text \<open>\<^verbatim>\<open>[b for b in blocks if b.get("type") in ("child_page", "child_database")]\<close>.\<close>

fun child_blocks :: "pyval list \<Rightarrow> pyerr + pyval list" where
  "child_blocks [] = Inr []"
| "child_blocks (b # bs) =
     ebind (py_get b (u ''type'') PNone) (\<lambda>t.
     ebind (child_blocks bs) (\<lambda>rest.
     Inr (if t = PStr (u ''child_page'') \<or> t = PStr (u ''child_database'') then b # rest
          else rest)))"

text \<open>
  \<^verbatim>\<open>process_page\<close> and \<^verbatim>\<open>process_database\<close> call each other for as deep as the remote
  hierarchy goes, which the program does not bound. The body of each function is given
  first, with the two functions it calls as its first arguments; the functions themselves
  follow, with a bound on the depth of the calls as their first argument. \<open>None\<close> is a
  run that needs more than the bound, or whose pagination never ends;
  \<open>Some (Inl err, w)\<close> is an exception that leaves the function, \<open>Some (Inr (), w)\<close> a
  return; \<open>w\<close> is the world at that moment.
\<close>

type_synonym outcome = "((pyerr + unit) \<times> world) option"

text \<open>
  The body of the loop over \<^verbatim>\<open>child_pages\<close> in \<^verbatim>\<open>process_page\<close>, and the body of the
  loop over \<^verbatim>\<open>records\<close> in \<^verbatim>\<open>process_database\<close>.
\<close>

definition process_child ::
  "(pyval \<Rightarrow> path \<Rightarrow> nat \<Rightarrow> bool \<Rightarrow> world \<Rightarrow> outcome) \<Rightarrow>
   (pyval \<Rightarrow> path \<Rightarrow> nat \<Rightarrow> world \<Rightarrow> outcome) \<Rightarrow>
   path \<Rightarrow> nat \<Rightarrow> pyval \<Rightarrow> world \<Rightarrow> outcome" where
  "process_child rec_page rec_database child_dir depth child w =
     (case py_get child (u ''id'') PNone of
        Inl err \<Rightarrow> Some (Inl err, w)
      | Inr child_id \<Rightarrow>
          (case py_get child (u ''type'') PNone of
             Inl err \<Rightarrow> Some (Inl err, w)
           | Inr t \<Rightarrow>
               if t = PStr (u ''child_page'')
               then rec_page child_id child_dir (depth + 1) False w
               else if t = PStr (u ''child_database'')
               then rec_database child_id child_dir (depth + 1) w
               else Some (Inr (), w)))"

definition process_record ::
  "(pyval \<Rightarrow> path \<Rightarrow> nat \<Rightarrow> bool \<Rightarrow> world \<Rightarrow> outcome) \<Rightarrow>
   path \<Rightarrow> nat \<Rightarrow> pyval \<Rightarrow> world \<Rightarrow> outcome" where
  "process_record rec_page db_dir depth record w =
     (case py_get record (u ''id'') PNone of
        Inl err \<Rightarrow> Some (Inl err, w)
      | Inr record_id \<Rightarrow> rec_page record_id db_dir (depth + 1) True w)"

definition process_page_body ::
  "(pyval \<Rightarrow> path \<Rightarrow> nat \<Rightarrow> bool \<Rightarrow> world \<Rightarrow> outcome) \<Rightarrow>
   (pyval \<Rightarrow> path \<Rightarrow> nat \<Rightarrow> world \<Rightarrow> outcome) \<Rightarrow>
   env \<Rightarrow> pyval \<Rightarrow> path \<Rightarrow> nat \<Rightarrow> bool \<Rightarrow> world \<Rightarrow> outcome" where
  "process_page_body rec_page rec_database e page_id output_path depth include_properties w =
     (case pages_retrieve e page_id of
        Inl err \<Rightarrow> Some (Inr (), print_ev (EvPageError page_id err) w)
      | Inr page \<Rightarrow>
     (case ebind (get_page_title page) (\<lambda>title.
           ebind (py_replace page_id 45 []) (\<lambda>page_id_short.
           ebind (as_str title) (\<lambda>t. Inr (t, page_id_short)))) of
        Inl err \<Rightarrow> Some (Inl err, w)
      | Inr (title, page_id_short) \<Rightarrow>
     let filename = sanitize_filename title @ [32] @ page_id_short @ u ''.md'';
         filepath = path_join output_path filename;
         w1 = print_ev (EvPage depth title) w
     in
     (case fetch_page_content e page_id (Some output_path) (PStr title) w1 of
        None \<Rightarrow> None
      | Some (Inl err, w2) \<Rightarrow> Some (Inl err, w2)
      | Some (Inr content, w2) \<Rightarrow>
     (case get_page_comments e page_id w2 of
        None \<Rightarrow> None
      | Some (comments_md, w3) \<Rightarrow>
     (case (if include_properties then get_page_properties_markdown page else Inr []) of
        Inl err \<Rightarrow> Some (Inl err, w3)
      | Inr properties_md \<Rightarrow>
     let markdown = u ''# '' @ title @ [10, 10] @ properties_md @ comments_md @ content;
         w4 = write_file filepath (Text markdown) (mkdir_p (butlast filepath) w3)
     in
     (case get_page_children e page_id of
        None \<Rightarrow> None
      | Some (Inl err) \<Rightarrow> Some (Inl err, w4)
      | Some (Inr blocks) \<Rightarrow>
     (case child_blocks blocks of
        Inl err \<Rightarrow> Some (Inl err, w4)
      | Inr child_pages \<Rightarrow>
          if child_pages = [] then Some (Inr (), w4)
          else
            let child_dir = path_join output_path (sanitize_filename title)
            in for_each (process_child rec_page rec_database child_dir depth)
                 child_pages (mkdir_p child_dir w4))))))))"

definition process_database_body ::
  "(pyval \<Rightarrow> path \<Rightarrow> nat \<Rightarrow> bool \<Rightarrow> world \<Rightarrow> outcome) \<Rightarrow>
   env \<Rightarrow> pyval \<Rightarrow> path \<Rightarrow> nat \<Rightarrow> world \<Rightarrow> outcome" where
  "process_database_body rec_page e database_id output_path depth w =
     (case databases_retrieve e database_id of
        Inl err \<Rightarrow> Some (Inr (), print_ev (EvDatabaseError database_id err) w)
      | Inr db \<Rightarrow>
     (case ebind (py_get db (u ''title'') (PList [PDict []])) (\<lambda>title_list.
           ebind (py_first title_list) (\<lambda>t0.
           ebind (py_get t0 (u ''plain_text'') (PStr (u ''Untitled''))) (\<lambda>title.
           ebind (py_replace database_id 45 []) (\<lambda>db_id_short.
           Inr (title, db_id_short))))) of
        Inl err \<Rightarrow> Some (Inl err, w)
      | Inr (title, db_id_short) \<Rightarrow>
     let w1 = print_ev (EvDatabase depth title) w
     in
     (case drain (databases_query e database_id) PNone [] of
        None \<Rightarrow> None
      | Some (Inl err) \<Rightarrow> Some (Inl err, w1)
      | Some (Inr records) \<Rightarrow>
     (case as_str title of
        Inl err \<Rightarrow> Some (Inl err, w1)
      | Inr t \<Rightarrow>
     let db_dir = path_join output_path (sanitize_filename t);
         w2 = mkdir_p db_dir w1
     in
     (case export_database_to_csv records t db_id_short output_path w2 of
        (Inl err, w3) \<Rightarrow> Some (Inl err, w3)
      | (Inr _, w3) \<Rightarrow>
          for_each (process_record rec_page db_dir depth) records w3)))))"

fun process_page ::
    "nat \<Rightarrow> env \<Rightarrow> pyval \<Rightarrow> path \<Rightarrow> nat \<Rightarrow> bool \<Rightarrow> world \<Rightarrow> outcome"
  and process_database ::
    "nat \<Rightarrow> env \<Rightarrow> pyval \<Rightarrow> path \<Rightarrow> nat \<Rightarrow> world \<Rightarrow> outcome"
where
  "process_page 0 e page_id output_path depth include_properties w = None"
| "process_page (Suc n) e page_id output_path depth include_properties w =
     process_page_body
       (\<lambda>child_id child_dir d ip w'. process_page n e child_id child_dir d ip w')
       (\<lambda>child_id child_dir d w'. process_database n e child_id child_dir d w')
       e page_id output_path depth include_properties w"
| "process_database 0 e database_id output_path depth w = None"
| "process_database (Suc n) e database_id output_path depth w =
     process_database_body
       (\<lambda>record_id db_dir d ip w'. process_page n e record_id db_dir d ip w')
       e database_id output_path depth w"

text \<open>
  \<^verbatim>\<open>main\<close>, with \<^verbatim>\<open>OUTPUT_DIR = Path("root_page")\<close>. The two lines of the banner are
  not modelled.
\<close>

definition OUTPUT_DIR :: path where
  "OUTPUT_DIR = [u ''root_page'']"

definition main :: "nat \<Rightarrow> env \<Rightarrow> world \<Rightarrow> outcome" where
  "main n e w =
     (if ROOT_PAGE_ID e = [] then
        Some (Inr (), print_ev (EvText (u ''Error: NOTION_ROOT_PAGE_ID is not set'')) w)
      else
        (case process_page n e (PStr (ROOT_PAGE_ID e)) OUTPUT_DIR 0 False (mkdir_p OUTPUT_DIR w) of
           None \<Rightarrow> None
         | Some (Inl err, w') \<Rightarrow> Some (Inl err, w')
         | Some (Inr _, w') \<Rightarrow> Some (Inr (), print_ev (EvText (u ''Done!'')) w')))"

section \<open>Notions used to state the properties\<close>

text \<open>
  What a listing source serves: \<open>source_pages list_call cursor ps\<close> holds when the call
  at \<open>cursor\<close> returns the first response of \<open>ps\<close>, every response but the last one
  reports more pages and carries the cursor at which the call returns the next one, and
  the last one reports no more pages. \<open>response_items\<close> are the items of one response.
\<close>

definition response_items :: "pyval \<Rightarrow> pyerr + pyval list" where
  "response_items response = ebind (py_get response (u ''results'') (PList [])) py_iter"

definition has_more :: "pyval \<Rightarrow> bool" where
  "has_more response =
     (case py_get response (u ''has_more'') PNone of Inl err \<Rightarrow> False | Inr v \<Rightarrow> truthy v)"

fun source_pages :: "(pyval \<Rightarrow> pyerr + pyval) \<Rightarrow> pyval \<Rightarrow> pyval list \<Rightarrow> bool" where
  "source_pages list_call cursor [] = False"
| "source_pages list_call cursor [p] =
     (list_call cursor = Inr p \<and> py_get p (u ''has_more'') PNone \<noteq> Inl AttributeError \<and>
      \<not> has_more p)"
| "source_pages list_call cursor (p # q # ps) =
     (list_call cursor = Inr p \<and> has_more p \<and>
      (case py_get p (u ''next_cursor'') PNone of
         Inl err \<Rightarrow> False
       | Inr next_cursor \<Rightarrow> source_pages list_call next_cursor (q # ps)))"

text \<open>
  A record lacks a column when its properties have no entry of that name. The world
  before an export has no file and no directory.
\<close>

definition lacks_column :: "pyval \<Rightarrow> pystr \<Rightarrow> bool" where
  "lacks_column record name =
     (case py_get record (u ''properties'') (PDict []) of
        Inr (PDict props) \<Rightarrow> map_of props name = None
      | _ \<Rightarrow> False)"

definition empty_world :: world where
  "empty_world = \<lparr>fs_files = Map.empty, fs_dirs = {}, writes = [], console = []\<rparr>"

text \<open>
  Two records of one container: the first has a title \<^verbatim>\<open>Name\<close> and a single-choice
  property \<^verbatim>\<open>Tag\<close>, the second has the title only.
\<close>

definition record_full :: pyval where
  "record_full =
     PDict [(u ''id'', PStr (u ''r1'')),
            (u ''properties'', PDict
               [(u ''Name'', PDict [(u ''type'', PStr (u ''title'')),
                   (u ''title'', PList [PDict [(u ''plain_text'', PStr (u ''A''))]])]),
                (u ''Tag'', PDict [(u ''type'', PStr (u ''select'')),
                   (u ''select'', PDict [(u ''name'', PStr (u ''x''))])])])]"

definition record_short :: pyval where
  "record_short =
     PDict [(u ''id'', PStr (u ''r2'')),
            (u ''properties'', PDict
               [(u ''Name'', PDict [(u ''type'', PStr (u ''title'')),
                   (u ''title'', PList [PDict [(u ''plain_text'', PStr (u ''B''))]])])])]"

text \<open>
  The property table: \<open>renders_text prop\<close> holds when the property is title-typed or
  its extracted value is a string; \<open>shown_properties\<close> are the entries that the table
  shows, in the order of the record's properties, with the pipes escaped: those that are
  not title-typed and whose extracted value is not the empty string.
\<close>

definition renders_text :: "pyval \<Rightarrow> bool" where
  "renders_text prop =
     (case py_get prop (u ''type'') PNone of
        Inl err \<Rightarrow> False
      | Inr t \<Rightarrow>
          t = PStr (u ''title'') \<or>
          (case extract_property_value prop of Inr (PStr v) \<Rightarrow> True | _ \<Rightarrow> False))"

definition shown_property :: "pystr \<times> pyval \<Rightarrow> bool" where
  "shown_property np =
     (py_get (snd np) (u ''type'') PNone \<noteq> Inr (PStr (u ''title'')) \<and>
      (case extract_property_value (snd np) of Inr (PStr v) \<Rightarrow> v \<noteq> [] | _ \<Rightarrow> False))"

definition shown_entry :: "pystr \<times> pyval \<Rightarrow> pystr \<times> pystr" where
  "shown_entry np =
     (replace_chr 124 [92, 124] (fst np),
      (case extract_property_value (snd np) of
         Inr (PStr v) \<Rightarrow> replace_chr 124 [92, 124] v
       | _ \<Rightarrow> []))"

definition shown_properties :: "(pystr \<times> pyval) list \<Rightarrow> (pystr \<times> pystr) list" where
  "shown_properties kvs = map shown_entry (filter shown_property kvs)"

text \<open>A record with a title, a single-choice property and a text property left empty.\<close>

definition record_note :: pyval where
  "record_note =
     PDict [(u ''id'', PStr (u ''r3'')),
            (u ''properties'', PDict
               [(u ''Name'', PDict [(u ''type'', PStr (u ''title'')),
                   (u ''title'', PList [PDict [(u ''plain_text'', PStr (u ''C''))]])]),
                (u ''Tag'', PDict [(u ''type'', PStr (u ''select'')),
                   (u ''select'', PDict [(u ''name'', PStr (u ''x|y''))])]),
                (u ''Note'', PDict [(u ''type'', PStr (u ''rich_text'')),
                   (u ''rich_text'', PList [])])])]"

text \<open>
  Well-formed property values, after the Notion API: every field is optional, and a field
  that is present has the type of the schema, or is \<^verbatim>\<open>null\<close> where the API sends
  \<^verbatim>\<open>null\<close> for an empty value. \<open>field_ok d k P\<close>: \<open>d\<close> is an object whose field \<open>k\<close>,
  if present, satisfies \<open>P\<close>.
\<close>

definition is_str :: "pyval \<Rightarrow> bool" where
  "is_str v = (case v of PStr s \<Rightarrow> True | _ \<Rightarrow> False)"

definition is_str_or_none :: "pyval \<Rightarrow> bool" where
  "is_str_or_none v = (case v of PStr s \<Rightarrow> True | PNone \<Rightarrow> True | _ \<Rightarrow> False)"



definition anything :: "pyval \<Rightarrow> bool" where
  "anything v = True"

definition list_of :: "(pyval \<Rightarrow> bool) \<Rightarrow> pyval \<Rightarrow> bool" where
  "list_of P v = (case v of PList xs \<Rightarrow> list_all P xs | _ \<Rightarrow> False)"

definition none_or :: "(pyval \<Rightarrow> bool) \<Rightarrow> pyval \<Rightarrow> bool" where
  "none_or P v = (v = PNone \<or> P v)"

definition field_ok :: "pyval \<Rightarrow> pystr \<Rightarrow> (pyval \<Rightarrow> bool) \<Rightarrow> bool" where
  "field_ok d k P =
     (case d of
        PDict kvs \<Rightarrow> (case map_of kvs k of None \<Rightarrow> True | Some v \<Rightarrow> P v)
      | _ \<Rightarrow> False)"










text \<open>
  Well-formed blocks, after the Notion API, with every field optional: the rich text of
  a block is a list of runs, a run has a string as its text, an object as its
  annotations and a string or \<^verbatim>\<open>null\<close> as its link.
\<close>

definition is_dict :: "pyval \<Rightarrow> bool" where
  "is_dict v = (case v of PDict kvs \<Rightarrow> True | _ \<Rightarrow> False)"

definition wf_rich_run :: "pyval \<Rightarrow> bool" where
  "wf_rich_run t =
     (field_ok t (u ''plain_text'') is_str \<and> field_ok t (u ''annotations'') is_dict \<and>
      field_ok t (u ''href'') is_str_or_none)"

definition wf_rich_text :: "pyval \<Rightarrow> bool" where
  "wf_rich_text v = list_of wf_rich_run v"

definition has_rich_text :: "pyval \<Rightarrow> bool" where
  "has_rich_text d = field_ok d (u ''rich_text'') wf_rich_text"

definition wf_image :: "pyval \<Rightarrow> bool" where
  "wf_image img =
     (field_ok img (u ''type'') anything \<and>
      field_ok img (u ''external'') (\<lambda>x. field_ok x (u ''url'') is_str) \<and>
      field_ok img (u ''file'') (\<lambda>x. field_ok x (u ''url'') is_str) \<and>
      field_ok img (u ''caption'') wf_rich_text)"

definition block_kinds :: "pystr list" where
  "block_kinds =
     [u ''paragraph'', u ''heading_1'', u ''heading_2'', u ''heading_3'',
      u ''bulleted_list_item'', u ''numbered_list_item'', u ''to_do'', u ''toggle'', u ''code'',
      u ''quote'', u ''divider'', u ''callout'', u ''child_page'', u ''child_database'',
      u ''image'', u ''bookmark'', u ''table'']"

definition wf_block :: "pyval \<Rightarrow> bool" where
  "wf_block b =
     (case py_get b (u ''type'') PNone of
        Inl err \<Rightarrow> False
      | Inr t \<Rightarrow>
          if t = PStr (u ''paragraph'') then field_ok b (u ''paragraph'') has_rich_text
          else if t = PStr (u ''heading_1'') then field_ok b (u ''heading_1'') has_rich_text
          else if t = PStr (u ''heading_2'') then field_ok b (u ''heading_2'') has_rich_text
          else if t = PStr (u ''heading_3'') then field_ok b (u ''heading_3'') has_rich_text
          else if t = PStr (u ''bulleted_list_item'') then
            field_ok b (u ''bulleted_list_item'') has_rich_text
          else if t = PStr (u ''numbered_list_item'') then
            field_ok b (u ''numbered_list_item'') has_rich_text
          else if t = PStr (u ''to_do'') then field_ok b (u ''to_do'') has_rich_text
          else if t = PStr (u ''toggle'') then field_ok b (u ''toggle'') has_rich_text
          else if t = PStr (u ''code'') then
            field_ok b (u ''code'')
              (\<lambda>d. has_rich_text d \<and> field_ok d (u ''language'') is_str)
          else if t = PStr (u ''quote'') then field_ok b (u ''quote'') has_rich_text
          else if t = PStr (u ''divider'') then True
          else if t = PStr (u ''callout'') then
            field_ok b (u ''callout'')
              (\<lambda>d. has_rich_text d \<and>
                   field_ok d (u ''icon'') (none_or (\<lambda>i. field_ok i (u ''emoji'') is_str)))
          else if t = PStr (u ''child_page'') then
            field_ok b (u ''child_page'') (\<lambda>d. field_ok d (u ''title'') is_str) \<and>
            field_ok b (u ''id'') is_str
          else if t = PStr (u ''child_database'') then
            field_ok b (u ''child_database'') (\<lambda>d. field_ok d (u ''title'') is_str) \<and>
            field_ok b (u ''id'') is_str
          else if t = PStr (u ''image'') then field_ok b (u ''image'') wf_image
          else if t = PStr (u ''bookmark'') then
            field_ok b (u ''bookmark'') (\<lambda>d. field_ok d (u ''url'') is_str)
          else if t = PStr (u ''table'') then field_ok b (u ''table'') is_dict
          else False)"

text \<open>A fragment that is not empty and ends in a line break.\<close>

definition ends_in_newline :: "pystr \<Rightarrow> bool" where
  "ends_in_newline s = (s \<noteq> [] \<and> last s = 10)"

text \<open>
  Tables: the texts of the cells of a row, as the rich-text renderer gives them; the
  escaping of the pipes of one cell; a text in which every pipe comes right after a
  backslash; and the table that is expected for the cell texts of the rows, with the
  separator row after the first row.
\<close>

definition is_table_row :: "pyval \<Rightarrow> bool" where
  "is_table_row row = (py_get row (u ''type'') PNone = Inr (PStr (u ''table_row'')))"

definition row_cell_texts :: "pyval \<Rightarrow> pyerr + pystr list" where
  "row_cell_texts row =
     ebind (block_field row (u ''table_row'') (u ''cells'') (PList [])) (\<lambda>cells.
     ebind (py_iter cells) (emapM rich_text_to_markdown))"

definition escape_pipes :: "pystr \<Rightarrow> pystr" where
  "escape_pipes s = replace_chr 124 [92, 124] s"

definition pipes_escaped :: "pystr \<Rightarrow> bool" where
  "pipes_escaped s = (\<forall>i < length s. s ! i = 124 \<longrightarrow> 0 < i \<and> s ! (i - 1) = 92)"

definition expected_table :: "pystr list \<Rightarrow> pystr list list \<Rightarrow> pystr" where
  "expected_table first_cells other_cells =
     intersperse [10]
       (table_row_text (map escape_pipes first_cells) #
        table_row_text (replicate (length first_cells) (u ''---'')) #
        map (\<lambda>cells. table_row_text (map escape_pipes cells)) other_cells) @ [10, 10]"

text \<open>
  A small remote store for the examples. The page \<^verbatim>\<open>r\<close> (\<^verbatim>\<open>Root\<close>) has the three
  nested pages \<^verbatim>\<open>a\<close>, \<^verbatim>\<open>b\<close> and \<^verbatim>\<open>c\<close>; the page \<^verbatim>\<open>a\<close> has one paragraph, the page
  \<^verbatim>\<open>c\<close> is empty, and retrieving the page \<^verbatim>\<open>b\<close> fails. The block \<^verbatim>\<open>t1\<close> is a table of
  two rows; the block \<^verbatim>\<open>t2\<close> is a table of two rows that the store lists in two pages,
  the second at the cursor \<^verbatim>\<open>c2\<close>. No page has comments. One image can be downloaded.
\<close>

definition title_property :: "string \<Rightarrow> pyval" where
  "title_property t =
     PDict [(u ''title'', PDict [(u ''type'', PStr (u ''title'')),
                                 (u ''title'', PList [PDict [(u ''plain_text'', PStr (u t))]])])]"

definition child_page_block :: "string \<Rightarrow> string \<Rightarrow> pyval" where
  "child_page_block i t =
     PDict [(u ''type'', PStr (u ''child_page'')), (u ''id'', PStr (u i)),
            (u ''child_page'', PDict [(u ''title'', PStr (u t))])]"

definition listing :: "pyval list \<Rightarrow> pyval" where
  "listing items =
     PDict [(u ''results'', PList items), (u ''has_more'', PBool False),
            (u ''next_cursor'', PNone)]"

definition text_cell :: "string \<Rightarrow> pyval" where
  "text_cell t = PList [PDict [(u ''plain_text'', PStr (u t))]]"

definition table_row_block :: "pyval list \<Rightarrow> pyval" where
  "table_row_block cells =
     PDict [(u ''type'', PStr (u ''table_row'')),
            (u ''table_row'', PDict [(u ''cells'', PList cells)])]"

definition example_env :: env where
  "example_env =
     \<lparr>pages_retrieve = (\<lambda>i.
        if i = PStr (u ''r'') then
          Inr (PDict [(u ''id'', PStr (u ''r'')), (u ''properties'', title_property ''Root'')])
        else if i = PStr (u ''a'') then
          Inr (PDict [(u ''id'', PStr (u ''a'')), (u ''properties'', title_property ''A'')])
        else if i = PStr (u ''c'') then
          Inr (PDict [(u ''id'', PStr (u ''c'')), (u ''properties'', title_property ''C'')])
        else Inl (RemoteError (u ''Could not find page''))),
      databases_retrieve = (\<lambda>i. Inl (RemoteError (u ''Could not find database''))),
      blocks_children_list = (\<lambda>i cursor.
        if i = PStr (u ''r'') then
          Inr (listing [child_page_block ''a'' ''A'', child_page_block ''b'' ''B'',
                        child_page_block ''c'' ''C''])
        else if i = PStr (u ''a'') then
          Inr (listing [PDict [(u ''type'', PStr (u ''paragraph'')),
                 (u ''paragraph'', PDict [(u ''rich_text'', text_cell ''hello'')])]])
        else if i = PStr (u ''c'') then Inr (listing [])
        else if i = PStr (u ''t1'') then
          Inr (listing [table_row_block [text_cell ''k'', text_cell ''v''],
                        table_row_block [text_cell ''a|b'', text_cell ''1'']])
        else if i = PStr (u ''t2'') then
          (if cursor = PNone then
             Inr (PDict [(u ''results'', PList [table_row_block [text_cell ''a'']]),
                         (u ''has_more'', PBool True), (u ''next_cursor'', PStr (u ''c2''))])
           else if cursor = PStr (u ''c2'') then
             Inr (listing [table_row_block [text_cell ''b'']])
           else Inl (RemoteError (u ''Invalid cursor'')))
        else Inl (RemoteError (u ''Could not find block''))),
      comments_list = (\<lambda>i cursor. Inr (listing [])),
      databases_query = (\<lambda>i cursor. Inl (RemoteError (u ''Could not find database''))),
      requests_get = (\<lambda>url.
        if url = PStr (u ''https://files.example/u1/pic.png'') then Inr [137, 80, 78, 71]
        else Inl (RemoteError (u ''404''))),
      urlparse_path = (\<lambda>url.
        if url = PStr (u ''https://files.example/u1/pic.png'') then Inr (u ''/u1/pic.png'')
        else if url = PStr (u ''https://files.example/u2/gone.png'') then
          Inr (u ''/u2/gone.png'')
        else Inl ValueError),
      unquote = (\<lambda>s. s),
      md5_hexdigest = (\<lambda>url. Inr (u ''0123456789abcdef0123456789abcdef'')),
      DOWNLOAD_IMAGES = True,
      ROOT_PAGE_ID = u ''r''\<rparr>"


section \<open>Properties of the filename sanitizer\<close>

lemma strip_subset: "set (strip s) \<subseteq> set s"
proof -
  have "set (strip s) = set (dropWhile is_space (rev (dropWhile is_space s)))"
    by (simp add: strip_def)
  also have "\<dots> \<subseteq> set (rev (dropWhile is_space s))"
    by (rule set_dropWhileD [THEN subsetI])
  also have "\<dots> \<subseteq> set s"
    using set_dropWhileD by fastforce
  finally show ?thesis .
qed

lemma dropWhile_fixed: "xs = [] \<or> \<not> P (hd xs) \<Longrightarrow> dropWhile P xs = xs"
  by (cases xs) auto

lemma dropWhile_rev_dropWhile:
  "dropWhile P (rev (dropWhile Q (rev (dropWhile P xs)))) = rev (dropWhile Q (rev (dropWhile P xs)))"
proof (cases "dropWhile Q (rev (dropWhile P xs)) = []")
  case True
  show ?thesis by (simp only: True rev.simps dropWhile.simps)
next
  case False
  let ?ys = "dropWhile P xs"
  let ?zs = "rev (dropWhile Q (rev ?ys))"
  have ys_ne: "?ys \<noteq> []"
  proof
    assume "?ys = []"
    then have "dropWhile Q (rev ?ys) = []"
      by (simp only: rev.simps dropWhile.simps)
    with False show False by contradiction
  qed
  have "\<exists>ws. rev ?ys = ws @ dropWhile Q (rev ?ys)"
    by (metis takeWhile_dropWhile_id)
  then obtain ws where "rev ?ys = ws @ dropWhile Q (rev ?ys)" ..
  then have "?ys = ?zs @ rev ws"
    by (metis rev_append rev_rev_ident)
  with False have "hd ?zs = hd ?ys"
    by (metis hd_append2 rev_is_Nil_conv)
  moreover have "\<not> P (hd ?ys)"
    using ys_ne hd_dropWhile by blast
  ultimately show ?thesis
    by (simp add: dropWhile_fixed)
qed

lemma strip_idem: "strip (strip s) = strip s"
proof -
  have "dropWhile is_space (strip s) = strip s"
    unfolding strip_def by (rule dropWhile_rev_dropWhile)
  moreover have "dropWhile is_space (rev (strip s)) = rev (strip s)"
    unfolding strip_def by (simp add: dropWhile_idem)
  ultimately show ?thesis
    by (simp add: strip_def)
qed

lemma sanitize_filename_safe: "set (sanitize_filename x) \<inter> unsafe_chars = {}"
  using strip_subset [of "filter (\<lambda>c. c \<notin> unsafe_chars) x"]
  by (auto simp: sanitize_filename_def)

text \<open>
  C8. Filename sanitization is idempotent, \<open>sanitize (sanitize x) = sanitize x\<close> for every
  input, and its output contains none of the characters \<^verbatim>\<open><>:"/\|?*\<close> (code points
  60, 62, 58, 34, 47, 92, 124, 63, 42).
\<close>

theorem sanitize_filename_idempotent_safe:
  "sanitize_filename (sanitize_filename x) = sanitize_filename x \<and>
   (\<forall>c \<in> set (sanitize_filename x). c \<notin> {60, 62, 58, 34, 47, 92, 124, 63, 42})"
proof
  have "filter (\<lambda>c. c \<notin> unsafe_chars) (sanitize_filename x) = sanitize_filename x"
    using sanitize_filename_safe [of x] by (auto intro: filter_True)
  then show "sanitize_filename (sanitize_filename x) = sanitize_filename x"
    by (simp add: sanitize_filename_def strip_idem)
  show "\<forall>c \<in> set (sanitize_filename x). c \<notin> {60, 62, 58, 34, 47, 92, 124, 63, 42}"
    using sanitize_filename_safe [of x] by (auto simp: unsafe_chars_def)
qed

text \<open>The title \<^verbatim>\<open>" a/b: "\<close> is sanitized to \<^verbatim>\<open>"ab"\<close>.\<close>

theorem sanitize_filename_idempotent_safe_witness:
  "sanitize_filename (u '' a/b: '') = u ''ab'' \<and>
   sanitize_filename (sanitize_filename (u '' a/b: '')) = sanitize_filename (u '' a/b: '') \<and>
   47 \<notin> set (sanitize_filename (u '' a/b: ''))"
proof -
  have "sanitize_filename (u '' a/b: '') = u ''ab''"
    by (simp add: sanitize_filename_def strip_def unsafe_chars_def is_space_def u_def)
  with sanitize_filename_idempotent_safe [of "u '' a/b: ''"] show ?thesis
    by (simp add: u_def)
qed

section \<open>Properties of pagination\<close>

lemma u_eq_iff: "u a = u b \<longleftrightarrow> a = b"
  unfolding u_def by (rule inj_map_eq_map) (simp add: inj_on_def)

lemma py_get_dict:
  "py_get (PDict kvs) k d = Inr (case map_of kvs k of None \<Rightarrow> d | Some v \<Rightarrow> v)"
  by (simp add: py_get_def)

lemma drain_complete_aux:
  "source_pages list_call cursor ps \<Longrightarrow> emapM response_items ps = Inr iss \<Longrightarrow>
   drain list_call cursor acc = Some (Inr (acc @ concat iss))"
proof (induction list_call cursor ps arbitrary: acc iss rule: source_pages.induct)
  case (1 list_call cursor)
  then show ?case by simp
next
  case (2 list_call cursor p)
  then obtain kvs where p: "p = PDict kvs"
    by (cases p) (auto simp: py_get_def)
  from 2 show ?case
    by (subst drain.simps)
       (auto simp: p py_get_dict has_more_def response_items_def ebind_def
             split: sum.splits option.splits)
next
  case (3 list_call cursor p q ps)
  from "3.prems"(2) obtain is1 iss' where
    iss: "response_items p = Inr is1" "emapM response_items (q # ps) = Inr iss'"
      "iss = is1 # iss'"
    by (auto simp: ebind_def split: sum.splits)
  from "3.prems"(1) obtain nc where
    nc: "py_get p (u ''next_cursor'') PNone = Inr nc" "source_pages list_call nc (q # ps)"
    by (auto split: sum.splits)
  have "drain list_call nc (acc @ is1) = Some (Inr ((acc @ is1) @ concat iss'))"
    by (rule "3.IH" [OF nc(1) nc(2) iss(2)])
  with "3.prems"(1) iss nc(1) show ?case
    by (subst drain.simps)
       (auto simp: has_more_def response_items_def split: sum.splits)
qed

lemma drain_sound_aux:
  assumes "drain list_call cursor acc = Some r"
  shows "\<forall>xs. r = Inr xs \<longrightarrow> (\<exists>ps iss. source_pages list_call cursor ps \<and>
       emapM response_items ps = Inr iss \<and> xs = acc @ concat iss)"
  using assms
proof (induction rule: drain.raw_induct [rotated 1, consumes 1])
  case (1 drain' list_call cursor items r)
  show ?case
  proof (intro allI impI)
    fix xs assume r: "r = Inr xs"
    from 1(2) r obtain p where p: "list_call cursor = Inr p"
      by (auto split: sum.splits)
    from 1(2) r p obtain results where res: "response_items p = Inr results"
      by (auto simp: response_items_def split: sum.splits)
    from 1(2) r p res obtain hm where hm: "py_get p (u ''has_more'') PNone = Inr hm"
      by (auto simp: response_items_def split: sum.splits)
    show "\<exists>ps iss. source_pages list_call cursor ps \<and>
       emapM response_items ps = Inr iss \<and> xs = items @ concat iss"
    proof (cases "truthy hm")
      case False
      with 1(2) r p res hm have "xs = items @ results"
        by (auto simp: response_items_def)
      moreover have "source_pages list_call cursor [p]"
        using p hm False by (simp add: has_more_def)
      moreover have "emapM response_items [p] = Inr [results]"
        using res by (simp add: ebind_def)
      ultimately show ?thesis
        by (intro exI [of _ "[p]"] exI [of _ "[results]"]) simp
    next
      case True
      with 1(2) r p res hm obtain nc where
        nc: "py_get p (u ''next_cursor'') PNone = Inr nc"
        and rec: "drain' list_call nc (items @ results) = Some (Inr xs)"
        by (auto simp: response_items_def split: sum.splits)
      from 1(1) rec obtain ps iss where
        ps: "source_pages list_call nc ps" "emapM response_items ps = Inr iss"
          "xs = (items @ results) @ concat iss"
        by blast
      from ps(1) obtain q qs where qs: "ps = q # qs"
        by (cases ps) auto
      have "source_pages list_call cursor (p # q # qs)"
        using p hm True nc ps(1) qs by (simp add: has_more_def)
      moreover have "emapM response_items (p # q # qs) = Inr (results # iss)"
        using res ps(2) qs by (simp add: ebind_def)
      ultimately show ?thesis
        using ps(3) qs by (intro exI [of _ "p # q # qs"] exI [of _ "results # iss"]) simp
    qed
  qed
qed

text \<open>
  The loop of \<^verbatim>\<open>get_page_children\<close> (\<open>list_call = blocks_children_list e page_id\<close>),
  of \<^verbatim>\<open>get_page_comments\<close> (\<open>comments_list e page_id\<close>) and of \<^verbatim>\<open>process_database\<close>
  (\<open>databases_query e database_id\<close>) is complete. If the source serves the pages \<open>ps\<close>
  from the empty cursor, the loop returns the concatenation of the items of all the
  pages, in order, each item once. And a list that the loop returns is never partial: it
  is the concatenation of the items of a chain of pages that ends with the one that
  reports no more pages.
\<close>

theorem pagination_draining_complete:
  "(source_pages list_call PNone ps \<and> emapM response_items ps = Inr iss \<longrightarrow>
      drain list_call PNone [] = Some (Inr (concat iss))) \<and>
   (drain list_call PNone [] = Some (Inr xs) \<longrightarrow>
      (\<exists>qs jss. source_pages list_call PNone qs \<and> emapM response_items qs = Inr jss \<and>
         xs = concat jss))"
proof (intro conjI impI)
  assume "source_pages list_call PNone ps \<and> emapM response_items ps = Inr iss"
  then show "drain list_call PNone [] = Some (Inr (concat iss))"
    using drain_complete_aux [of list_call PNone ps iss "[]"] by simp
next
  assume "drain list_call PNone [] = Some (Inr xs)"
  then show "\<exists>qs jss. source_pages list_call PNone qs \<and>
      emapM response_items qs = Inr jss \<and> xs = concat jss"
    using drain_sound_aux [of list_call PNone "[]" "Inr xs"] by simp
qed

text \<open>
  A source of two pages: the first holds the items 1 and 2 and the cursor \<^verbatim>\<open>c1\<close>, the
  second holds the item 3.
\<close>

theorem pagination_draining_complete_witness:
  "source_pages
     (\<lambda>c. if c = PNone then
            Inr (PDict [(u ''results'', PList [PInt 1, PInt 2]), (u ''has_more'', PBool True),
                        (u ''next_cursor'', PStr (u ''c1''))])
          else if c = PStr (u ''c1'') then
            Inr (PDict [(u ''results'', PList [PInt 3]), (u ''has_more'', PBool False),
                        (u ''next_cursor'', PNone)])
          else Inl (RemoteError []))
     PNone
     [PDict [(u ''results'', PList [PInt 1, PInt 2]), (u ''has_more'', PBool True),
             (u ''next_cursor'', PStr (u ''c1''))],
      PDict [(u ''results'', PList [PInt 3]), (u ''has_more'', PBool False),
             (u ''next_cursor'', PNone)]] \<and>
   drain
     (\<lambda>c. if c = PNone then
            Inr (PDict [(u ''results'', PList [PInt 1, PInt 2]), (u ''has_more'', PBool True),
                        (u ''next_cursor'', PStr (u ''c1''))])
          else if c = PStr (u ''c1'') then
            Inr (PDict [(u ''results'', PList [PInt 3]), (u ''has_more'', PBool False),
                        (u ''next_cursor'', PNone)])
          else Inl (RemoteError []))
     PNone [] = Some (Inr [PInt 1, PInt 2, PInt 3])"
proof -
  let ?p1 = "PDict [(u ''results'', PList [PInt 1, PInt 2]), (u ''has_more'', PBool True),
                    (u ''next_cursor'', PStr (u ''c1''))]"
  let ?p2 = "PDict [(u ''results'', PList [PInt 3]), (u ''has_more'', PBool False),
                    (u ''next_cursor'', PNone)]"
  let ?f = "\<lambda>c. if c = PNone then Inr ?p1 else if c = PStr (u ''c1'') then Inr ?p2
                 else Inl (RemoteError [])"
  have chain: "source_pages ?f PNone [?p1, ?p2]"
    by (simp add: has_more_def py_get_def u_def)
  have items: "emapM response_items [?p1, ?p2] = Inr [[PInt 1, PInt 2], [PInt 3]]"
    by (simp add: response_items_def py_get_def py_iter_def ebind_def u_def)
  from chain items
    pagination_draining_complete [of ?f "[?p1, ?p2]" "[[PInt 1, PInt 2], [PInt 3]]"]
  have "drain ?f PNone [] = Some (Inr [PInt 1, PInt 2, PInt 3])"
    by simp
  with chain show ?thesis by simp
qed

lemma get_page_children_complete:
  "source_pages (blocks_children_list e page_id) PNone ps \<Longrightarrow>
   emapM response_items ps = Inr iss \<Longrightarrow>
   get_page_children e page_id = Some (Inr (concat iss))"
  using drain_complete_aux [of "blocks_children_list e page_id" PNone ps iss "[]"]
  by (simp add: get_page_children_def)

lemma get_page_children_never_partial:
  "get_page_children e page_id = Some (Inr xs) \<Longrightarrow>
   \<exists>ps iss. source_pages (blocks_children_list e page_id) PNone ps \<and>
     emapM response_items ps = Inr iss \<and> xs = concat iss"
  using drain_sound_aux [of "blocks_children_list e page_id" PNone "[]" "Inr xs"]
  by (simp add: get_page_children_def)

text \<open>
  C4. The code does not drain every paginated listing. \<^verbatim>\<open>convert_table_block\<close> lists the
  rows of a table with one call of \<^verbatim>\<open>notion.blocks.children.list\<close> (lines 416 and 417)
  and reads neither \<^verbatim>\<open>has_more\<close> nor \<^verbatim>\<open>next_cursor\<close>. The store lists the two rows of
  the table \<^verbatim>\<open>t2\<close> in two pages: \<^verbatim>\<open>get_page_children\<close>, which loops, returns both rows,
  and the rendered table has the first row only.
\<close>

theorem table_rows_not_drained:
  "get_page_children example_env (PStr (u ''t2'')) =
     Some (Inr [table_row_block [text_cell ''a''], table_row_block [text_cell ''b'']]) \<and>
   convert_table_block example_env
     (PDict [(u ''type'', PStr (u ''table'')), (u ''id'', PStr (u ''t2''))]) empty_world =
     (Inr (u ''| a |\<newline>| --- |\<newline>\<newline>''), empty_world)"
proof
  have "drain (blocks_children_list example_env (PStr (u ''t2''))) (PStr (u ''c2''))
          [table_row_block [text_cell ''a'']] =
        Some (Inr [table_row_block [text_cell ''a''], table_row_block [text_cell ''b'']])"
    by (subst drain.simps)
       (simp add: example_env_def listing_def py_get_def py_iter_def ebind_def u_eq_iff)
  then show "get_page_children example_env (PStr (u ''t2'')) =
     Some (Inr [table_row_block [text_cell ''a''], table_row_block [text_cell ''b'']])"
    unfolding get_page_children_def
    by (subst drain.simps)
       (simp add: example_env_def py_get_def py_iter_def ebind_def u_eq_iff)
  show "convert_table_block example_env
     (PDict [(u ''type'', PStr (u ''table'')), (u ''id'', PStr (u ''t2''))]) empty_world =
     (Inr (u ''| a |\<newline>| --- |\<newline>\<newline>''), empty_world)"
    by (simp add: convert_table_block_def table_body_def table_row_block_def text_cell_def
          block_field_def rich_text_to_markdown_def rich_text_run_def wrap_if_def
          table_row_text_def replace_chr_def py_join_def as_str_def py_iter_def py_get_def
          ebind_def example_env_def u_def)
qed

section \<open>Properties of the block renderer\<close>

text \<open>
  C7. A nested-page block (\<^verbatim>\<open>child_page\<close>, icon U+1F4C4, extension \<^verbatim>\<open>.md\<close>) or
  nested-container block (\<^verbatim>\<open>child_database\<close>, icon U+1F5C4 U+FE0F, extension
  \<^verbatim>\<open>.csv\<close>) that is rendered with a known parent title links to
  \<^verbatim>\<open>sanitize(parentTitle)/sanitize(childTitle)%20<childIdWithoutHyphens>.md\<close> (resp.
  \<^verbatim>\<open>.csv\<close>): the space before the identifier is written \<^verbatim>\<open>%20\<close>. Rendered without a
  parent title, it is the bare label. A known parent title is one that the test
  \<^verbatim>\<open>if parent_title and child_id\<close> of the source accepts: a non-empty title, for a block
  that carries its identifier.
\<close>

theorem nested_reference_link:
  assumes "py_get block (u ''type'') PNone = Inr (PStr kind)"
    and "kind = u ''child_page'' \<and> icon = [128196] \<and> ext = u ''.md'' \<or>
         kind = u ''child_database'' \<and> icon = [128452, 65039] \<and> ext = u ''.csv''"
    and "block_field block kind (u ''title'') (PStr (u ''Untitled'')) = Inr (PStr title)"
    and "py_get block (u ''id'') (PStr []) = Inr (PStr block_id)"
    and "replace_chr 45 [] block_id \<noteq> []"
    and "parent \<noteq> []"
  shows "block_to_markdown e block output_dir (PStr parent) w =
           (Inr (icon @ u '' ['' @ title @ u '']('' @
                 sanitize_filename parent @ u ''/'' @ sanitize_filename title @ u ''%20'' @
                 replace_chr 45 [] block_id @ ext @ u '')\<newline>''), w) \<and>
         block_to_markdown e block output_dir PNone w =
           (Inr (icon @ u '' ['' @ title @ u '']\<newline>''), w)"
proof -
  have link: "child_link block kind icon ext (PStr parent) =
      Inr (icon @ u '' ['' @ title @ u '']('' @
           sanitize_filename parent @ u ''/'' @ sanitize_filename title @ u ''%20'' @
           replace_chr 45 [] block_id @ ext @ u '')\<newline>'')"
    using assms(3-6) by (simp add: child_link_def ebind_def py_replace_def as_str_def u_def)
  have bare: "child_link block kind icon ext PNone =
      Inr (icon @ u '' ['' @ title @ u '']\<newline>'')"
    using assms(3-5) by (simp add: child_link_def ebind_def py_replace_def)
  from assms(2) show ?thesis
  proof
    assume "kind = u ''child_page'' \<and> icon = [128196] \<and> ext = u ''.md''"
    with assms(1) link bare show ?thesis
      by (simp add: block_to_markdown_def u_def)
  next
    assume "kind = u ''child_database'' \<and> icon = [128452, 65039] \<and> ext = u ''.csv''"
    with assms(1) link bare show ?thesis
      by (simp add: block_to_markdown_def u_def)
  qed
qed

text \<open>
  The nested page \<^verbatim>\<open>Child: A\<close> with the identifier \<^verbatim>\<open>ab-12\<close>, rendered inside the page
  \<^verbatim>\<open>Parent\<close>: the label keeps the colon, the path does not.
\<close>

theorem nested_reference_link_witness:
  "\<forall>e output_dir w.
     block_to_markdown e
       (PDict [(u ''type'', PStr (u ''child_page'')), (u ''id'', PStr (u ''ab-12'')),
               (u ''child_page'', PDict [(u ''title'', PStr (u ''Child: A''))])])
       output_dir (PStr (u ''Parent'')) w =
     (Inr ([128196] @ u '' [Child: A](Parent/Child A%20ab12.md)\<newline>''), w)"
proof (intro allI)
  fix e output_dir w
  let ?b = "PDict [(u ''type'', PStr (u ''child_page'')), (u ''id'', PStr (u ''ab-12'')),
                   (u ''child_page'', PDict [(u ''title'', PStr (u ''Child: A''))])]"
  have 1: "py_get ?b (u ''type'') PNone = Inr (PStr (u ''child_page''))"
    by (simp add: py_get_def u_def)
  have 2: "u ''child_page'' = u ''child_page'' \<and> [128196] = [128196::nat] \<and> u ''.md'' = u ''.md'' \<or>
       u ''child_page'' = u ''child_database'' \<and> [128196] = [128452, 65039::nat] \<and>
       u ''.md'' = u ''.csv''"
    by simp
  have 3: "block_field ?b (u ''child_page'') (u ''title'') (PStr (u ''Untitled'')) =
       Inr (PStr (u ''Child: A''))"
    by (simp add: block_field_def py_get_def ebind_def u_def)
  have 4: "py_get ?b (u ''id'') (PStr []) = Inr (PStr (u ''ab-12''))"
    by (simp add: py_get_def u_def)
  have 5: "replace_chr 45 [] (u ''ab-12'') \<noteq> []"
    by (simp add: replace_chr_def u_def)
  have 6: "u ''Parent'' \<noteq> []"
    by (simp add: u_def)
  have san: "sanitize_filename (u ''Parent'') = u ''Parent''"
    "sanitize_filename (u ''Child: A'') = u ''Child A''"
    "replace_chr 45 [] (u ''ab-12'') = u ''ab12''"
    by (simp_all add: sanitize_filename_def strip_def unsafe_chars_def is_space_def
          replace_chr_def u_def)
  from nested_reference_link [OF 1 2 3 4 5 6, of e output_dir w]
  show "block_to_markdown e ?b output_dir (PStr (u ''Parent'')) w =
     (Inr ([128196] @ u '' [Child: A](Parent/Child A%20ab12.md)\<newline>''), w)"
    by (simp add: san) (simp add: u_def)
qed

section \<open>Properties of the tabular exporter\<close>

lemma csv_rows_all:
  "emapM (csv_row headers) records = Inr rows \<Longrightarrow>
   csv_rows headers records written = (None, written @ rows)"
proof (induction records arbitrary: written rows)
  case Nil
  then show ?case by simp
next
  case (Cons r rs)
  then show ?case
    by (auto simp: ebind_def split: sum.splits)
qed

lemma emapM_length: "emapM f xs = Inr ys \<Longrightarrow> length ys = length xs"
  by (induction xs arbitrary: ys) (auto simp: ebind_def split: sum.splits)

lemma emapM_nth: "emapM f xs = Inr ys \<Longrightarrow> i < length xs \<Longrightarrow> f (xs ! i) = Inr (ys ! i)"
proof (induction xs arbitrary: ys i)
  case Nil
  then show ?case by simp
next
  case (Cons x xs)
  then show ?case
    by (cases i) (auto simp: ebind_def split: sum.splits)
qed

lemma extract_untyped: "extract_property_value (PDict []) = Inr (PStr (u ''[None]''))"
  by (simp add: extract_property_value_def py_get_def ebind_def u_def)

lemma lacking_cell:
  "lacks_column r name \<Longrightarrow> csv_cell r name = Inr (PStr (u ''[None]''))"
  by (auto simp: lacks_column_def csv_cell_def ebind_def py_get_dict extract_untyped
           split: sum.splits pyval.splits)

lemmas csv_eval =
  record_full_def record_short_def export_database_to_csv_def csv_fieldnames_def csv_row_def
  csv_cell_def extract_property_value_def join_field_def ret_str_def py_join_def as_str_def
  py_iter_def py_items_def py_get_def ebind_def OUTPUT_DIR_def empty_world_def path_join_def
  sanitize_filename_def strip_def is_space_def unsafe_chars_def write_file_def print_ev_def
  lacks_column_def Let_def u_def

text \<open>
  Every record, the first one too, is flattened against the columns of the first record:
  one cell per column, in the order of the columns, and the file holds the header row
  and the rows.
\<close>

lemma csv_rows_flattened:
  assumes "csv_fieldnames first_record = Inr headers"
    and "emapM (csv_row headers) (first_record # records) = Inr rows"
  shows "export_database_to_csv (first_record # records) title db_id output_path w =
           (Inr (),
            print_ev (EvCsvExported (sanitize_filename title @ [32] @ db_id @ u ''.csv''))
              (write_file
                 (path_join output_path (sanitize_filename title @ [32] @ db_id @ u ''.csv''))
                 (CsvRows (map PStr headers # rows)) w)) \<and>
         length rows = length (first_record # records) \<and>
         (\<forall>i < length rows. \<forall>j < length headers.
            length (rows ! i) = length headers \<and>
            csv_cell ((first_record # records) ! i) (headers ! j) = Inr (rows ! i ! j))"
proof (intro conjI allI impI)
  show "export_database_to_csv (first_record # records) title db_id output_path w =
           (Inr (),
            print_ev (EvCsvExported (sanitize_filename title @ [32] @ db_id @ u ''.csv''))
              (write_file
                 (path_join output_path (sanitize_filename title @ [32] @ db_id @ u ''.csv''))
                 (CsvRows (map PStr headers # rows)) w))"
    using assms(1) csv_rows_all [OF assms(2), of "[map PStr headers]"]
    by (simp add: export_database_to_csv_def Let_def)
  show len: "length rows = length (first_record # records)"
    by (rule emapM_length [OF assms(2)])
  fix i j assume i: "i < length rows" and j: "j < length headers"
  from i len have row: "csv_row headers ((first_record # records) ! i) = Inr (rows ! i)"
    using emapM_nth [OF assms(2), of i] by simp
  then show "length (rows ! i) = length headers"
    unfolding csv_row_def by (rule emapM_length)
  from row j show "csv_cell ((first_record # records) ! i) (headers ! j) = Inr (rows ! i ! j)"
    unfolding csv_row_def by (rule emapM_nth)
qed

text \<open>
  C2. The code does not do what the claim says about a missing column. The record
  \<open>record_short\<close> lacks the column \<^verbatim>\<open>Tag\<close> of the first record \<open>record_full\<close>; its cell
  in the exported table is \<^verbatim>\<open>[None]\<close>, not the empty cell of the claim. The source looks
  the missing property up with the default \<^verbatim>\<open>{}\<close> (lines 619 and 620), which has no
  type, so that \<^verbatim>\<open>extract_property_value\<close> formats Python's \<^verbatim>\<open>None\<close> in the branch for
  the types it does not know (lines 141 and 142). No error is raised, and the rows are
  flattened against the columns \<^verbatim>\<open>Name\<close>, \<^verbatim>\<open>Tag\<close> of the first record.
\<close>

theorem csv_missing_column_cell:
  "lacks_column record_short (u ''Tag'') \<and>
   csv_cell record_short (u ''Tag'') = Inr (PStr (u ''[None]'')) \<and>
   csv_cell record_short (u ''Tag'') \<noteq> Inr (PStr []) \<and>
   fs_files (snd (export_database_to_csv [record_full, record_short] (u ''DB'') (u ''d1'')
                    OUTPUT_DIR empty_world))
     [u ''root_page'', u ''DB d1.csv''] =
   Some (CsvRows [[PStr (u ''Name''), PStr (u ''Tag'')],
                  [PStr (u ''A''), PStr (u ''x'')],
                  [PStr (u ''B''), PStr (u ''[None]'')]])"
  by (simp add: csv_eval)

section \<open>Properties of the property table\<close>

lemmas props_eval =
  renders_text_def shown_property_def shown_entry_def properties_table_def table_row_text_def
  extract_property_value_def join_field_def ret_str_def py_join_def as_str_def py_iter_def
  py_get_def ebind_def replace_chr_def Let_def u_def

lemma collect_prop_items_shown:
  "list_all (\<lambda>np. renders_text (snd np)) kvs \<Longrightarrow>
   collect_prop_items kvs acc = Inr (acc @ shown_properties kvs)"
proof (induction kvs arbitrary: acc)
  case Nil
  then show ?case by (simp add: shown_properties_def)
next
  case (Cons np kvs)
  obtain nm pr where np: "np = (nm, pr)" by (cases np)
  from Cons.prems have r: "renders_text pr" and rest: "list_all (\<lambda>np. renders_text (snd np)) kvs"
    by (simp_all add: np)
  from r obtain t where t: "py_get pr (u ''type'') PNone = Inr t"
    by (auto simp: renders_text_def split: sum.splits)
  show ?case
  proof (cases "t = PStr (u ''title'')")
    case True
    with t Cons.IH [OF rest] show ?thesis
      by (simp add: np ebind_def shown_properties_def shown_property_def)
  next
    case False
    with r t obtain v where v: "extract_property_value pr = Inr (PStr v)"
      by (auto simp: renders_text_def split: sum.splits pyval.splits)
    with t False Cons.IH [OF rest] show ?thesis
      by (simp add: np ebind_def shown_properties_def shown_property_def shown_entry_def
            py_replace_def)
  qed
qed

text \<open>
  C10. In the property table of a record document, the title-typed property and every
  property whose extracted value is the empty string are omitted: the table is made of
  the other properties. If none remains, or the record has no property, no table is
  emitted and the property section is the empty string.
\<close>

theorem property_table_omissions:
  assumes "py_get page (u ''properties'') (PDict []) = Inr (PDict kvs)"
    and "list_all (\<lambda>np. renders_text (snd np)) kvs"
  shows "get_page_properties_markdown page =
           Inr (if filter shown_property kvs = [] then []
                else properties_table (map shown_entry (filter shown_property kvs))) \<and>
         (\<forall>np \<in> set kvs.
            py_get (snd np) (u ''type'') PNone = Inr (PStr (u ''title'')) \<or>
            extract_property_value (snd np) = Inr (PStr []) \<longrightarrow>
            np \<notin> set (filter shown_property kvs)) \<and>
         (list_all (\<lambda>np. \<not> shown_property np) kvs \<longrightarrow>
            get_page_properties_markdown page = Inr [])"
proof -
  have main: "get_page_properties_markdown page =
           Inr (if shown_properties kvs = [] then []
                else properties_table (shown_properties kvs))"
  proof (cases "kvs = []")
    case True
    with assms(1) show ?thesis
      by (simp add: get_page_properties_markdown_def ebind_def shown_properties_def)
  next
    case False
    with assms(1) collect_prop_items_shown [OF assms(2), of "[]"] show ?thesis
      by (simp add: get_page_properties_markdown_def ebind_def py_items_def)
  qed
  have empty: "list_all (\<lambda>np. \<not> shown_property np) kvs \<Longrightarrow> filter shown_property kvs = []"
    by (simp add: list_all_iff)
  show ?thesis
    using main empty by (auto simp: shown_properties_def shown_property_def)
qed

text \<open>
  The record \<open>record_note\<close>: the title \<^verbatim>\<open>Name\<close> and the empty \<^verbatim>\<open>Note\<close> are left out,
  the table has the column \<^verbatim>\<open>Tag\<close> only, with the pipe of its value escaped. The record
  \<open>record_short\<close> has a title only: its property section is empty.
\<close>

theorem property_table_omissions_witness:
  "get_page_properties_markdown record_note =
     Inr (u ''| Tag |\<newline>| --- |\<newline>| x'' @ [92] @ u ''|y |\<newline>\<newline>---\<newline>'') \<and>
   get_page_properties_markdown record_short = Inr []"
proof -
  let ?kvs = "[(u ''Name'', PDict [(u ''type'', PStr (u ''title'')),
                   (u ''title'', PList [PDict [(u ''plain_text'', PStr (u ''C''))]])]),
               (u ''Tag'', PDict [(u ''type'', PStr (u ''select'')),
                   (u ''select'', PDict [(u ''name'', PStr (u ''x|y''))])]),
               (u ''Note'', PDict [(u ''type'', PStr (u ''rich_text'')),
                   (u ''rich_text'', PList [])])]"
  let ?kvs' = "[(u ''Name'', PDict [(u ''type'', PStr (u ''title'')),
                   (u ''title'', PList [PDict [(u ''plain_text'', PStr (u ''B''))]])])]"
  have 1: "py_get record_note (u ''properties'') (PDict []) = Inr (PDict ?kvs)"
    by (simp add: record_note_def py_get_def u_def)
  have 2: "list_all (\<lambda>np. renders_text (snd np)) ?kvs"
    by (simp add: props_eval)
  have 3: "py_get record_short (u ''properties'') (PDict []) = Inr (PDict ?kvs')"
    by (simp add: record_short_def py_get_def u_def)
  have 4: "list_all (\<lambda>np. renders_text (snd np)) ?kvs'"
    by (simp add: props_eval)
  have "get_page_properties_markdown record_note =
     Inr (u ''| Tag |\<newline>| --- |\<newline>| x'' @ [92] @ u ''|y |\<newline>\<newline>---\<newline>'')"
    using property_table_omissions [OF 1 2] by (simp add: props_eval)
  moreover have "get_page_properties_markdown record_short = Inr []"
    using property_table_omissions [OF 3 4] by (simp add: props_eval)
  ultimately show ?thesis by simp
qed

section \<open>Properties of the property value extractor\<close>

lemma field_okD:
  "field_ok d k P \<Longrightarrow> P dflt \<Longrightarrow> \<exists>v. py_get d k dflt = Inr v \<and> P v"
  by (auto simp: field_ok_def py_get_def split: pyval.splits option.splits)


lemma py_join_strs: "list_all is_str parts \<Longrightarrow> \<exists>s. py_join sep parts = Inr s"
proof -
  assume "list_all is_str parts"
  then have "\<exists>ss. emapM as_str parts = Inr ss"
    by (induction parts) (auto simp: ebind_def as_str_def is_str_def split: pyval.splits)
  then show ?thesis by (auto simp: py_join_def ebind_def)
qed
























lemma ends_append:
  "ends_in_newline (s @ t) = (if t = [] then ends_in_newline s else ends_in_newline t)"
  by (simp add: ends_in_newline_def)

lemma rich_block_ends:
  "rich_block b k pre suf = Inr s \<Longrightarrow> ends_in_newline suf \<Longrightarrow> ends_in_newline s"
  by (auto simp: rich_block_def ebind_def ends_append ends_in_newline_def split: sum.splits)

lemma child_link_ends: "child_link b k icon ext pt = Inr s \<Longrightarrow> ends_in_newline s"
  by (auto simp: child_link_def ebind_def Let_def ends_append ends_in_newline_def u_def
           split: sum.splits if_splits)

lemma image_block_ends: "fst (image_block e b od w) = Inr s \<Longrightarrow> ends_in_newline s"
  by (auto simp: image_block_def ebind_def Let_def ends_append ends_in_newline_def u_def
           split: sum.splits if_splits prod.splits option.splits)

lemma table_body_ends: "table_body e bid = Inr s \<Longrightarrow> ends_in_newline s"
  by (auto simp: table_body_def ebind_def ends_append ends_in_newline_def u_def
           split: sum.splits if_splits)

lemma table_ends: "fst (convert_table_block e b w) = Inr s \<Longrightarrow> ends_in_newline s"
  by (auto simp: convert_table_block_def ends_in_newline_def u_def dest: table_body_ends
           split: sum.splits)

lemma block_ends:
  "fst (block_to_markdown e b od pt w) = Inr s \<Longrightarrow> ends_in_newline s"
  unfolding block_to_markdown_def
  apply (simp split: sum.splits if_splits)
  apply (auto dest: rich_block_ends child_link_ends image_block_ends table_ends
              simp: ebind_def Let_def ends_append ends_in_newline_def u_def
              split: sum.splits if_splits)
  done

lemma is_strD: "is_str v \<Longrightarrow> \<exists>s. v = PStr s"
  by (cases v) (simp_all add: is_str_def)

lemma is_dictD: "is_dict v \<Longrightarrow> \<exists>kvs. v = PDict kvs"
  by (cases v) (simp_all add: is_dict_def)

lemma is_dict_PDict: "is_dict (PDict kvs)"
  by (simp add: is_dict_def)

lemma is_str_PStr: "is_str (PStr s)"
  by (simp add: is_str_def)

lemma wrap_if_str: "\<exists>s'. wrap_if c pre post (PStr s) = Inr (PStr s')"
  by (simp add: wrap_if_def ebind_def)

lemma rich_run_ok:
  assumes "wf_rich_run t"
  shows "\<exists>s. rich_text_run t = Inr (PStr s)"
proof -
  from assms have f1: "field_ok t (u ''plain_text'') is_str"
    and f2: "field_ok t (u ''annotations'') is_dict"
    and f3: "field_ok t (u ''href'') is_str_or_none"
    by (simp_all add: wf_rich_run_def)
  from field_okD [OF f1, of "PStr []"] obtain c0 where c0: "py_get t (u ''plain_text'') (PStr []) = Inr (PStr c0)"
    by (auto simp: is_str_PStr dest: is_strD)
  from field_okD [OF f2, of "PDict []"] obtain akvs where
    an: "py_get t (u ''annotations'') (PDict []) = Inr (PDict akvs)"
    by (auto simp: is_dict_PDict dest: is_dictD)
  from field_okD [OF f3, of PNone] obtain h where
    h: "py_get t (u ''href'') PNone = Inr h" "is_str_or_none h"
    by (auto simp: is_str_or_none_def)
  obtain c1 where c1: "wrap_if (truthy (case map_of akvs (u ''bold'') of None \<Rightarrow> PNone | Some v \<Rightarrow> v))
      (u ''**'') (u ''**'') (PStr c0) = Inr (PStr c1)"
    using wrap_if_str by blast
  obtain c2 where c2: "wrap_if (truthy (case map_of akvs (u ''italic'') of None \<Rightarrow> PNone | Some v \<Rightarrow> v))
      (u ''*'') (u ''*'') (PStr c1) = Inr (PStr c2)"
    using wrap_if_str by blast
  obtain c3 where c3: "wrap_if (truthy (case map_of akvs (u ''strikethrough'') of None \<Rightarrow> PNone | Some v \<Rightarrow> v))
      (u ''~~'') (u ''~~'') (PStr c2) = Inr (PStr c3)"
    using wrap_if_str by blast
  obtain c4 where c4: "wrap_if (truthy (case map_of akvs (u ''code'') of None \<Rightarrow> PNone | Some v \<Rightarrow> v))
      [96] [96] (PStr c3) = Inr (PStr c4)"
    using wrap_if_str by blast
  have "\<exists>s. (if truthy h then
       ebind (py_str (PStr c4)) (\<lambda>c. ebind (py_str h) (\<lambda>h.
       Inr (PStr (u ''['' @ c @ u '']('' @ h @ u '')''))))
     else Inr (PStr c4)) = Inr (PStr s)"
    using h(2) by (cases h) (simp_all add: is_str_or_none_def ebind_def)
  with c0 an h(1) c1 c2 c3 c4 show ?thesis
    by (simp add: rich_text_run_def ebind_def py_get_dict)
qed

lemma rich_text_ok:
  assumes "wf_rich_text v"
  shows "\<exists>s. rich_text_to_markdown v = Inr s"
proof -
  from assms obtain ts where v: "v = PList ts" and ts: "list_all wf_rich_run ts"
    by (auto simp: wf_rich_text_def list_of_def split: pyval.splits)
  from ts have "\<exists>parts. emapM rich_text_run ts = Inr parts \<and> list_all is_str parts"
  proof (induction ts)
    case Nil
    then show ?case by simp
  next
    case (Cons t ts)
    then obtain parts where "emapM rich_text_run ts = Inr parts" "list_all is_str parts"
      by auto
    moreover from Cons.prems rich_run_ok [of t] obtain s where "rich_text_run t = Inr (PStr s)"
      by auto
    ultimately show ?case by (simp add: ebind_def is_str_PStr)
  qed
  then obtain parts where p: "emapM rich_text_run ts = Inr parts" "list_all is_str parts"
    by auto
  from py_join_strs [OF p(2), of "[]"] obtain s where "py_join [] parts = Inr s" by auto
  with p(1) show ?thesis
    by (simp add: v rich_text_to_markdown_def py_iter_def ebind_def)
qed

lemma block_rich_text_ok:
  assumes "field_ok b kind has_rich_text"
  shows "\<exists>texts s. block_field b kind (u ''rich_text'') (PList []) = Inr texts \<and>
           rich_text_to_markdown texts = Inr s"
proof -
  have d0: "has_rich_text (PDict [])"
    by (simp add: has_rich_text_def field_ok_def)
  from field_okD [OF assms d0] obtain d where
    d: "py_get b kind (PDict []) = Inr d" "has_rich_text d" by auto
  have "wf_rich_text (PList [])"
    by (simp add: wf_rich_text_def list_of_def)
  from field_okD [OF d(2) [unfolded has_rich_text_def] this] obtain texts where
    t: "py_get d (u ''rich_text'') (PList []) = Inr texts" "wf_rich_text texts" by auto
  from rich_text_ok [OF t(2)] obtain s where "rich_text_to_markdown texts = Inr s" by auto
  with d(1) t(1) show ?thesis
    by (simp add: block_field_def ebind_def)
qed

lemma rich_block_ok:
  "field_ok b kind has_rich_text \<Longrightarrow> \<exists>s. rich_block b kind pre suf = Inr s"
  using block_rich_text_ok [of b kind] by (auto simp: rich_block_def ebind_def)


lemma field_ok_dict: "field_ok d k P \<Longrightarrow> \<exists>kvs. d = PDict kvs"
  by (cases d) (simp_all add: field_ok_def)

lemma field_ok_mono: "field_ok b k P \<Longrightarrow> (\<And>v. P v \<Longrightarrow> Q v) \<Longrightarrow> field_ok b k Q"
  by (auto simp: field_ok_def split: pyval.splits option.splits)

lemma field_ok_empty: "field_ok (PDict []) k P"
  by (simp add: field_ok_def)

lemma block_field_ok:
  assumes "field_ok b kind (\<lambda>d. field_ok d key P)" and "P dflt"
  shows "\<exists>v. block_field b kind key dflt = Inr v \<and> P v"
proof -
  from field_okD [OF assms(1), of "PDict []"] obtain d where
    d: "py_get b kind (PDict []) = Inr d" "field_ok d key P"
    by (auto simp: field_ok_empty)
  from field_okD [OF d(2) assms(2)] d(1) show ?thesis
    by (auto simp: block_field_def ebind_def)
qed

lemma block_field_some:
  assumes "field_ok b kind (\<lambda>d. field_ok d k0 P)"
  shows "\<exists>v. block_field b kind key dflt = Inr v"
proof -
  from field_okD [OF assms, of "PDict []"] obtain d where
    d: "py_get b kind (PDict []) = Inr d" "field_ok d k0 P"
    by (auto simp: field_ok_empty)
  from field_ok_dict [OF d(2)] d(1) show ?thesis
    by (auto simp: block_field_def ebind_def py_get_dict)
qed

lemma to_do_ok:
  assumes "field_ok b (u ''to_do'') has_rich_text"
  shows "\<exists>s. ebind (block_field b (u ''to_do'') (u ''rich_text'') (PList [])) (\<lambda>texts.
             ebind (block_field b (u ''to_do'') (u ''checked'') (PBool False)) (\<lambda>checked.
             let checkbox = (if truthy checked then u ''[x]'' else u ''[ ]'')
             in ebind (rich_text_to_markdown texts) (\<lambda>t.
                Inr (u ''- '' @ checkbox @ [32] @ t @ [10])))) = Inr s"
proof -
  from block_rich_text_ok [OF assms] obtain texts t where
    t: "block_field b (u ''to_do'') (u ''rich_text'') (PList []) = Inr texts"
       "rich_text_to_markdown texts = Inr t" by auto
  from block_field_some [OF assms [unfolded has_rich_text_def]] obtain c where
    "block_field b (u ''to_do'') (u ''checked'') (PBool False) = Inr c" by auto
  with t show ?thesis by (simp add: ebind_def Let_def)
qed

lemma code_ok:
  assumes "field_ok b (u ''code'') (\<lambda>d. has_rich_text d \<and> field_ok d (u ''language'') is_str)"
  shows "\<exists>s. ebind (block_field b (u ''code'') (u ''rich_text'') (PList [])) (\<lambda>texts.
             ebind (block_field b (u ''code'') (u ''language'') (PStr [])) (\<lambda>language.
             ebind (rich_text_to_markdown texts) (\<lambda>code.
             ebind (py_str language) (\<lambda>lang.
             Inr ([96, 96, 96] @ lang @ [10] @ code @ [10, 96, 96, 96, 10]))))) = Inr s"
proof -
  from assms have a: "field_ok b (u ''code'') has_rich_text"
    by (rule field_ok_mono) simp
  from assms have b: "field_ok b (u ''code'') (\<lambda>d. field_ok d (u ''language'') is_str)"
    by (rule field_ok_mono) simp
  from block_rich_text_ok [OF a] obtain texts t where
    t: "block_field b (u ''code'') (u ''rich_text'') (PList []) = Inr texts"
       "rich_text_to_markdown texts = Inr t" by auto
  from block_field_ok [OF b, of "PStr []"] obtain l where
    "block_field b (u ''code'') (u ''language'') (PStr []) = Inr (PStr l)"
    by (auto simp: is_str_PStr dest: is_strD)
  with t show ?thesis by (simp add: ebind_def)
qed

lemma callout_ok:
  assumes "field_ok b (u ''callout'')
              (\<lambda>d. has_rich_text d \<and>
                   field_ok d (u ''icon'') (none_or (\<lambda>i. field_ok i (u ''emoji'') is_str)))"
  shows "\<exists>s. ebind (block_field b (u ''callout'') (u ''rich_text'') (PList [])) (\<lambda>texts.
             ebind (block_field b (u ''callout'') (u ''icon'') (PDict [])) (\<lambda>icon.
             ebind (if truthy icon then py_get icon (u ''emoji'') (PStr [128161])
                    else Inr (PStr [128161])) (\<lambda>emoji.
             ebind (py_str emoji) (\<lambda>em.
             ebind (rich_text_to_markdown texts) (\<lambda>t.
             Inr (u ''> '' @ em @ [32] @ t @ [10])))))) = Inr s"
proof -
  from assms have a: "field_ok b (u ''callout'') has_rich_text"
    by (rule field_ok_mono) simp
  from assms have b: "field_ok b (u ''callout'')
      (\<lambda>d. field_ok d (u ''icon'') (none_or (\<lambda>i. field_ok i (u ''emoji'') is_str)))"
    by (rule field_ok_mono) simp
  from block_rich_text_ok [OF a] obtain texts t where
    t: "block_field b (u ''callout'') (u ''rich_text'') (PList []) = Inr texts"
       "rich_text_to_markdown texts = Inr t" by auto
  from block_field_ok [OF b, of "PDict []"] obtain icon where
    i: "block_field b (u ''callout'') (u ''icon'') (PDict []) = Inr icon"
       "none_or (\<lambda>i. field_ok i (u ''emoji'') is_str) icon"
    by (auto simp: none_or_def field_ok_empty)
  have "\<exists>em. (if truthy icon then py_get icon (u ''emoji'') (PStr [128161])
               else Inr (PStr [128161])) = Inr (PStr em)"
  proof (cases "truthy icon")
    case False
    then show ?thesis by simp
  next
    case True
    with i(2) have "field_ok icon (u ''emoji'') is_str"
      by (auto simp: none_or_def)
    from field_okD [OF this, of "PStr [128161]"] True show ?thesis
      by (auto simp: is_str_PStr dest: is_strD)
  qed
  then obtain em where "(if truthy icon then py_get icon (u ''emoji'') (PStr [128161])
               else Inr (PStr [128161])) = Inr (PStr em)" by auto
  with t i(1) show ?thesis by (simp add: ebind_def)
qed

lemma child_link_ok:
  assumes "field_ok b kind (\<lambda>d. field_ok d (u ''title'') is_str)"
    and "field_ok b (u ''id'') is_str" and "is_str_or_none pt"
  shows "\<exists>s. child_link b kind icon ext pt = Inr s"
proof -
  from block_field_ok [OF assms(1), of "PStr (u ''Untitled'')"] obtain title where
    t: "block_field b kind (u ''title'') (PStr (u ''Untitled'')) = Inr (PStr title)"
    by (auto simp: is_str_PStr dest: is_strD)
  from field_okD [OF assms(2), of "PStr []"] obtain bid where
    i: "py_get b (u ''id'') (PStr []) = Inr (PStr bid)"
    by (auto simp: is_str_PStr dest: is_strD)
  from assms(3) t i show ?thesis
    by (cases pt) (simp_all add: child_link_def ebind_def py_replace_def as_str_def
                     is_str_or_none_def Let_def)
qed

lemma download_image_str: "is_str url \<Longrightarrow> is_str (fst (download_image e url od w))"
  by (auto simp: download_image_def Let_def is_str_PStr split: sum.splits)

lemma image_block_ok:
  assumes "field_ok b (u ''image'') wf_image"
  shows "\<exists>s. fst (image_block e b od w) = Inr s"
proof -
  have "wf_image (PDict [])"
    by (simp add: wf_image_def field_ok_empty)
  from field_okD [OF assms this] obtain img where
    img: "py_get b (u ''image'') (PDict []) = Inr img" "wf_image img" by auto
  from img(2) have
    f1: "field_ok img (u ''external'') (\<lambda>x. field_ok x (u ''url'') is_str)"
    and f2: "field_ok img (u ''file'') (\<lambda>x. field_ok x (u ''url'') is_str)"
    and f3: "field_ok img (u ''caption'') wf_rich_text"
    by (simp_all add: wf_image_def)
  from field_ok_dict [OF f3] obtain ikvs where ikvs: "img = PDict ikvs" by auto
  then obtain ty where ty: "py_get img (u ''type'') PNone = Inr ty"
    by (simp add: py_get_dict)
  from block_field_ok [OF f1, of "PStr []"] obtain u1 where
    u1: "block_field img (u ''external'') (u ''url'') (PStr []) = Inr (PStr u1)"
    by (auto simp: is_str_PStr dest: is_strD)
  from block_field_ok [OF f2, of "PStr []"] obtain u2 where
    u2: "block_field img (u ''file'') (u ''url'') (PStr []) = Inr (PStr u2)"
    by (auto simp: is_str_PStr dest: is_strD)
  have "wf_rich_text (PList [])"
    by (simp add: wf_rich_text_def list_of_def)
  from field_okD [OF f3 this] obtain cap where
    cap: "py_get img (u ''caption'') (PList []) = Inr cap" "wf_rich_text cap" by auto
  from rich_text_ok [OF cap(2)] obtain caption where
    c: "rich_text_to_markdown cap = Inr caption" by auto
  obtain ip w' where d: "download_image e (PStr u2) (the od) w = (PStr ip, w')"
    using download_image_str [of "PStr u2" e "the od" w]
    by (cases "download_image e (PStr u2) (the od) w") (auto simp: is_str_PStr dest: is_strD)
  from img(1) ty u1 u2 cap(1) c d show ?thesis
    by (auto simp: image_block_def ebind_def Let_def split: option.splits)
qed

lemma bookmark_ok:
  assumes "field_ok b (u ''bookmark'') (\<lambda>d. field_ok d (u ''url'') is_str)"
  shows "\<exists>s. ebind (block_field b (u ''bookmark'') (u ''url'') (PStr [])) (\<lambda>url.
             ebind (py_str url) (\<lambda>s. Inr ([128279, 32] @ s @ [10]))) = Inr s"
proof -
  from block_field_ok [OF assms, of "PStr []"] obtain v where
    "block_field b (u ''bookmark'') (u ''url'') (PStr []) = Inr (PStr v)"
    by (auto simp: is_str_PStr dest: is_strD)
  then show ?thesis by (simp add: ebind_def)
qed

lemma table_ok:
  assumes "field_ok b (u ''table'') is_dict"
  shows "\<exists>s. fst (convert_table_block e b w) = Inr s"
proof -
  from field_ok_dict [OF assms] obtain kvs where b: "b = PDict kvs" by auto
  from field_okD [OF assms, of "PDict []"] obtain tkvs where
    t: "py_get b (u ''table'') (PDict []) = Inr (PDict tkvs)"
    by (auto simp: is_dict_PDict dest: is_dictD)
  have i: "\<exists>v. py_get b (u ''id'') PNone = Inr v"
    by (simp add: b py_get_dict)
  from t i show ?thesis
    by (auto simp: convert_table_block_def ebind_def py_get_dict split: sum.splits)
qed


lemma wf_block_renders:
  assumes "wf_block b" and "is_str_or_none pt"
  shows "\<exists>s. fst (block_to_markdown e b od pt w) = Inr s"
proof -
  from assms(1) obtain t where t: "py_get b (u ''type'') PNone = Inr t"
    by (auto simp: wf_block_def split: sum.splits)
  note wf = assms(1) [unfolded wf_block_def t sum.case]
  consider (k_paragraph) "t = PStr (u ''paragraph'')"
    | (k_heading_1) "t = PStr (u ''heading_1'')"
    | (k_heading_2) "t = PStr (u ''heading_2'')"
    | (k_heading_3) "t = PStr (u ''heading_3'')"
    | (k_bulleted_list_item) "t = PStr (u ''bulleted_list_item'')"
    | (k_numbered_list_item) "t = PStr (u ''numbered_list_item'')"
    | (k_to_do) "t = PStr (u ''to_do'')"
    | (k_toggle) "t = PStr (u ''toggle'')"
    | (k_code) "t = PStr (u ''code'')"
    | (k_quote) "t = PStr (u ''quote'')"
    | (k_divider) "t = PStr (u ''divider'')"
    | (k_callout) "t = PStr (u ''callout'')"
    | (k_child_page) "t = PStr (u ''child_page'')"
    | (k_child_database) "t = PStr (u ''child_database'')"
    | (k_image) "t = PStr (u ''image'')"
    | (k_bookmark) "t = PStr (u ''bookmark'')"
    | (k_table) "t = PStr (u ''table'')"
    | (other) "t \<notin> PStr ` set block_kinds"
    by (auto simp: block_kinds_def)
  then show ?thesis
  proof cases
    case k_paragraph
    with wf have f: "field_ok b (u ''paragraph'') has_rich_text"
      by (simp add: u_eq_iff)
    show ?thesis
      unfolding block_to_markdown_def t sum.case using k_paragraph rich_block_ok [OF f]
      by (simp add: u_eq_iff)
  next
    case k_heading_1
    with wf have f: "field_ok b (u ''heading_1'') has_rich_text"
      by (simp add: u_eq_iff)
    show ?thesis
      unfolding block_to_markdown_def t sum.case using k_heading_1 rich_block_ok [OF f]
      by (simp add: u_eq_iff)
  next
    case k_heading_2
    with wf have f: "field_ok b (u ''heading_2'') has_rich_text"
      by (simp add: u_eq_iff)
    show ?thesis
      unfolding block_to_markdown_def t sum.case using k_heading_2 rich_block_ok [OF f]
      by (simp add: u_eq_iff)
  next
    case k_heading_3
    with wf have f: "field_ok b (u ''heading_3'') has_rich_text"
      by (simp add: u_eq_iff)
    show ?thesis
      unfolding block_to_markdown_def t sum.case using k_heading_3 rich_block_ok [OF f]
      by (simp add: u_eq_iff)
  next
    case k_bulleted_list_item
    with wf have f: "field_ok b (u ''bulleted_list_item'') has_rich_text"
      by (simp add: u_eq_iff)
    show ?thesis
      unfolding block_to_markdown_def t sum.case using k_bulleted_list_item rich_block_ok [OF f]
      by (simp add: u_eq_iff)
  next
    case k_numbered_list_item
    with wf have f: "field_ok b (u ''numbered_list_item'') has_rich_text"
      by (simp add: u_eq_iff)
    show ?thesis
      unfolding block_to_markdown_def t sum.case using k_numbered_list_item rich_block_ok [OF f]
      by (simp add: u_eq_iff)
  next
    case k_to_do
    show ?thesis
      unfolding block_to_markdown_def t sum.case
      using k_to_do to_do_ok [of b] wf
      by (simp add: u_eq_iff)
  next
    case k_toggle
    with wf have f: "field_ok b (u ''toggle'') has_rich_text"
      by (simp add: u_eq_iff)
    show ?thesis
      unfolding block_to_markdown_def t sum.case using k_toggle rich_block_ok [OF f]
      by (simp add: u_eq_iff)
  next
    case k_code
    show ?thesis
      unfolding block_to_markdown_def t sum.case
      using k_code code_ok [of b] wf
      by (simp add: u_eq_iff)
  next
    case k_quote
    with wf have f: "field_ok b (u ''quote'') has_rich_text"
      by (simp add: u_eq_iff)
    show ?thesis
      unfolding block_to_markdown_def t sum.case using k_quote rich_block_ok [OF f]
      by (simp add: u_eq_iff)
  next
    case k_divider
    then show ?thesis
      unfolding block_to_markdown_def t sum.case
      by (simp add: u_eq_iff)
  next
    case k_callout
    show ?thesis
      unfolding block_to_markdown_def t sum.case
      using k_callout callout_ok [of b] wf
      by (simp add: u_eq_iff)
  next
    case k_child_page
    with wf have f: "field_ok b (u ''child_page'') (\<lambda>d. field_ok d (u ''title'') is_str)"
      "field_ok b (u ''id'') is_str"
      by (simp_all add: u_eq_iff)
    show ?thesis
      unfolding block_to_markdown_def t sum.case
      using k_child_page child_link_ok [OF f assms(2)]
      by (simp add: u_eq_iff)
  next
    case k_child_database
    with wf have f: "field_ok b (u ''child_database'') (\<lambda>d. field_ok d (u ''title'') is_str)"
      "field_ok b (u ''id'') is_str"
      by (simp_all add: u_eq_iff)
    show ?thesis
      unfolding block_to_markdown_def t sum.case
      using k_child_database child_link_ok [OF f assms(2)]
      by (simp add: u_eq_iff)
  next
    case k_image
    show ?thesis
      unfolding block_to_markdown_def t sum.case
      using k_image image_block_ok [of b] wf
      by (simp add: u_eq_iff)
  next
    case k_bookmark
    show ?thesis
      unfolding block_to_markdown_def t sum.case
      using k_bookmark bookmark_ok [of b] wf
      by (simp add: u_eq_iff)
  next
    case k_table
    show ?thesis
      unfolding block_to_markdown_def t sum.case
      using k_table table_ok [of b] wf
      by (simp add: u_eq_iff)
  next
    case other
    with wf show ?thesis
      by (auto simp: block_kinds_def split: if_splits)
  qed
qed

lemma unknown_kind:
  "py_get b (u ''type'') PNone = Inr (PStr kind) \<Longrightarrow> kind \<notin> set block_kinds \<Longrightarrow>
   block_to_markdown e b od pt w = (Inr (u ''['' @ kind @ u '']\<newline>''), w)"
  by (simp add: block_to_markdown_def block_kinds_def ebind_def)

text \<open>
  C5. A well-formed block of a kind of the closed enumeration is rendered (the renderer
  returns a fragment); every fragment that the renderer returns, for a block of any
  kind, is not empty and ends in a line break; and a block of a kind \<open>k\<close> outside the
  enumeration is rendered as \<^verbatim>\<open>[k]\<close> and a line break, and the world is left as it is.
\<close>

theorem block_rendering_total:
  "(wf_block block \<and> is_str_or_none parent_title \<longrightarrow>
      (\<exists>s. fst (block_to_markdown e block output_dir parent_title w) = Inr s)) \<and>
   (fst (block_to_markdown e block output_dir parent_title w) = Inr s \<longrightarrow>
      ends_in_newline s) \<and>
   (py_get block (u ''type'') PNone = Inr (PStr kind) \<and> kind \<notin> set block_kinds \<longrightarrow>
      block_to_markdown e block output_dir parent_title w =
        (Inr (u ''['' @ kind @ u '']\<newline>''), w))"
  using wf_block_renders [of block parent_title e output_dir w]
    block_ends [of e block output_dir parent_title w s]
    unknown_kind [of block kind e output_dir parent_title w]
  by blast

text \<open>
  A paragraph with one bold run, and a block of the kind \<^verbatim>\<open>embed\<close>, which the renderer
  does not know.
\<close>

theorem block_rendering_total_witness:
  "\<forall>e output_dir w.
     block_to_markdown e
       (PDict [(u ''type'', PStr (u ''paragraph'')),
               (u ''paragraph'', PDict [(u ''rich_text'', PList
                  [PDict [(u ''plain_text'', PStr (u ''hi'')),
                          (u ''annotations'', PDict [(u ''bold'', PBool True)])]])])])
       output_dir PNone w = (Inr (u ''**hi**\<newline>''), w) \<and>
     ends_in_newline (u ''**hi**\<newline>'') \<and>
     block_to_markdown e (PDict [(u ''type'', PStr (u ''embed''))]) output_dir PNone w =
       (Inr (u ''[embed]\<newline>''), w)"
proof (intro allI)
  fix e output_dir w
  let ?b = "PDict [(u ''type'', PStr (u ''paragraph'')),
               (u ''paragraph'', PDict [(u ''rich_text'', PList
                  [PDict [(u ''plain_text'', PStr (u ''hi'')),
                          (u ''annotations'', PDict [(u ''bold'', PBool True)])]])])]"
  let ?c = "PDict [(u ''type'', PStr (u ''embed''))]"
  have wf: "wf_block ?b \<and> is_str_or_none PNone"
    by (simp add: wf_block_def has_rich_text_def wf_rich_text_def wf_rich_run_def list_of_def
          field_ok_def is_str_def is_dict_def is_str_or_none_def py_get_def u_eq_iff)
  have val: "block_to_markdown e ?b output_dir PNone w = (Inr (u ''**hi**\<newline>''), w)"
    by (simp add: block_to_markdown_def rich_block_def block_field_def rich_text_to_markdown_def
          rich_text_run_def wrap_if_def py_join_def as_str_def py_iter_def py_get_def ebind_def
          u_def)
  have unk: "py_get ?c (u ''type'') PNone = Inr (PStr (u ''embed'')) \<and>
      u ''embed'' \<notin> set block_kinds"
    by (simp add: py_get_def block_kinds_def u_eq_iff)
  from block_rendering_total [of ?b PNone e output_dir w "u ''**hi**\<newline>''" "u ''embed''"] val
  have "ends_in_newline (u ''**hi**\<newline>'')" by simp
  moreover from block_rendering_total [of ?c PNone e output_dir w "[]" "u ''embed''"] unk
  have "block_to_markdown e ?c output_dir PNone w = (Inr (u ''[embed]\<newline>''), w)"
    by (simp add: u_def)
  ultimately show "block_to_markdown e ?b output_dir PNone w = (Inr (u ''**hi**\<newline>''), w) \<and>
     ends_in_newline (u ''**hi**\<newline>'') \<and>
     block_to_markdown e ?c output_dir PNone w = (Inr (u ''[embed]\<newline>''), w)"
    using val by simp
qed

section \<open>Properties of the table renderer\<close>

lemma pipes_escaped_Nil: "pipes_escaped []"
  by (simp add: pipes_escaped_def)

lemma pipes_escaped_Cons: "pipes_escaped t \<Longrightarrow> c \<noteq> 124 \<Longrightarrow> pipes_escaped (c # t)"
  unfolding pipes_escaped_def
proof (intro allI impI)
  fix i
  assume h: "\<forall>i<length t. t ! i = 124 \<longrightarrow> 0 < i \<and> t ! (i - 1) = 92"
    and c: "c \<noteq> 124" and i: "i < length (c # t)" and p: "(c # t) ! i = 124"
  from c p obtain j where j: "i = Suc j" by (cases i) auto
  with i p h have "0 < j \<and> t ! (j - 1) = 92" by auto
  with j show "0 < i \<and> (c # t) ! (i - 1) = 92" by (cases j) auto
qed

lemma pipes_escaped_esc: "pipes_escaped t \<Longrightarrow> pipes_escaped (92 # 124 # t)"
  unfolding pipes_escaped_def
proof (intro allI impI)
  fix i
  assume h: "\<forall>i<length t. t ! i = 124 \<longrightarrow> 0 < i \<and> t ! (i - 1) = 92"
    and i: "i < length (92 # 124 # t)" and p: "(92 # 124 # t) ! i = 124"
  show "0 < i \<and> (92 # 124 # t) ! (i - 1) = 92"
  proof (cases i)
    case 0
    with p show ?thesis by simp
  next
    case (Suc j)
    show ?thesis
    proof (cases j)
      case 0
      with Suc show ?thesis by simp
    next
      case (Suc k)
      with \<open>i = Suc j\<close> i p h have "0 < k \<and> t ! (k - 1) = 92" by auto
      with Suc \<open>i = Suc j\<close> show ?thesis by (cases k) auto
    qed
  qed
qed

lemma escape_pipes_escaped: "pipes_escaped (escape_pipes s)"
proof (induction s)
  case Nil
  show ?case by (simp add: escape_pipes_def replace_chr_def pipes_escaped_Nil)
next
  case (Cons c s)
  then show ?case
    using pipes_escaped_Cons [of "escape_pipes s" c] pipes_escaped_esc [of "escape_pipes s"]
    by (simp add: escape_pipes_def replace_chr_def)
qed

lemma emapM_map:
  "emapM f xs = Inr ys \<Longrightarrow> emapM (\<lambda>x. ebind (f x) (\<lambda>y. Inr (g y))) xs = Inr (map g ys)"
  by (induction xs arbitrary: ys) (auto simp: ebind_def split: sum.splits)

lemma table_row_step:
  assumes "is_table_row row" and "row_cell_texts row = Inr cells"
  shows "table_rows i (row # rows) md_rows =
     table_rows (Suc i) rows
       (if i = 0 then md_rows @ [table_row_text (map escape_pipes cells),
                                 table_row_text (replicate (length cells) (u ''---''))]
        else md_rows @ [table_row_text (map escape_pipes cells)])"
proof -
  from assms(2) obtain cv cs where
    c: "block_field row (u ''table_row'') (u ''cells'') (PList []) = Inr cv"
       "py_iter cv = Inr cs" "emapM rich_text_to_markdown cs = Inr cells"
    by (auto simp: row_cell_texts_def ebind_def split: sum.splits)
  from emapM_map [OF c(3), of "replace_chr 124 [92, 124]"]
  have "emapM (\<lambda>cell. ebind (rich_text_to_markdown cell) (\<lambda>cell_text.
                Inr (replace_chr 124 [92, 124] cell_text))) cs = Inr (map escape_pipes cells)"
    by (simp add: escape_pipes_def [abs_def])
  with assms(1) c(1,2) show ?thesis
    by (simp add: is_table_row_def ebind_def Let_def)
qed

lemma table_rows_later:
  "list_all is_table_row rows \<Longrightarrow> emapM row_cell_texts rows = Inr cellss \<Longrightarrow> 0 < i \<Longrightarrow>
   table_rows i rows md_rows =
     Inr (md_rows @ map (\<lambda>cells. table_row_text (map escape_pipes cells)) cellss)"
proof (induction rows arbitrary: i md_rows cellss)
  case Nil
  then show ?case by simp
next
  case (Cons row rows)
  from Cons.prems(2) obtain cells rest where
    c: "row_cell_texts row = Inr cells" "emapM row_cell_texts rows = Inr rest"
       "cellss = cells # rest"
    by (auto simp: ebind_def split: sum.splits)
  from Cons.prems(1) have r: "is_table_row row" "list_all is_table_row rows" by simp_all
  show ?case
    using Cons.prems(3) Cons.IH [OF r(2) c(2), of "Suc i"]
    by (simp add: table_row_step [OF r(1) c(1)] c(3) del: table_rows.simps)
qed


lemma table_rows_first:
  assumes "list_all is_table_row (row # rows)"
    and "emapM row_cell_texts (row # rows) = Inr (cells # cellss)"
  shows "table_rows 0 (row # rows) [] =
     Inr (table_row_text (map escape_pipes cells) #
          table_row_text (replicate (length cells) (u ''---'')) #
          map (\<lambda>cells. table_row_text (map escape_pipes cells)) cellss)"
proof -
  from assms(2) have c: "row_cell_texts row = Inr cells" "emapM row_cell_texts rows = Inr cellss"
    by (auto simp: ebind_def split: sum.splits)
  from assms(1) have r: "is_table_row row" "list_all is_table_row rows" by simp_all
  show ?thesis
    using table_rows_later [OF r(2) c(2), of "Suc 0"]
    by (simp add: table_row_step [OF r(1) c(1)] del: table_rows.simps)
qed

text \<open>
  C6. A table block is rendered from the rows that the listing call returns, all of them
  table rows, the first with the cell texts \<open>cells\<close> and the others with \<open>cellss\<close>. The
  rendered table has one line per row, in which every cell has its pipes escaped (each
  pipe comes right after a backslash), and the header-separator row stands directly
  after the first row. The header flags of the block take no part: \<open>table_info\<close> is
  any object, and the table block with any value \<open>flag\<close> of \<^verbatim>\<open>has_column_header\<close> is
  rendered the same.
\<close>

theorem table_rendering:
  assumes "py_get block (u ''id'') PNone = Inr block_id"
    and "py_get block (u ''table'') (PDict []) = Inr (PDict table_info)"
    and "blocks_children_list e block_id PNone = Inr response"
    and "py_get response (u ''results'') (PList []) = Inr (PList (row # rows))"
    and "list_all is_table_row (row # rows)"
    and "emapM row_cell_texts (row # rows) = Inr (cells # cellss)"
  shows "convert_table_block e block w = (Inr (expected_table cells cellss), w) \<and>
         block_to_markdown e
           (PDict [(u ''type'', PStr (u ''table'')), (u ''id'', block_id),
                   (u ''table'', PDict [(u ''has_column_header'', flag)])])
           output_dir parent_title w = (Inr (expected_table cells cellss), w) \<and>
         (\<forall>cs \<in> set (cells # cellss). \<forall>c \<in> set cs. pipes_escaped (escape_pipes c))"
proof (intro conjI ballI)
  have body: "table_body e block_id = Inr (expected_table cells cellss)"
    using assms(3,4) table_rows_first [OF assms(5,6)]
    by (simp add: table_body_def ebind_def py_iter_def expected_table_def
             del: table_rows.simps)
  from assms(1,2) body show "convert_table_block e block w = (Inr (expected_table cells cellss), w)"
    by (simp add: convert_table_block_def ebind_def py_get_dict)
  from body show "block_to_markdown e
           (PDict [(u ''type'', PStr (u ''table'')), (u ''id'', block_id),
                   (u ''table'', PDict [(u ''has_column_header'', flag)])])
           output_dir parent_title w = (Inr (expected_table cells cellss), w)"
    by (simp add: block_to_markdown_def convert_table_block_def ebind_def py_get_def u_eq_iff)
next
  fix cs c
  show "pipes_escaped (escape_pipes c)"
    by (rule escape_pipes_escaped)
qed


text \<open>
  The table \<^verbatim>\<open>t1\<close> of the example store, marked as having no header: its first row is
  followed by the separator row all the same, and the pipe of the cell \<^verbatim>\<open>a|b\<close> is
  escaped.
\<close>

theorem table_rendering_witness:
  "\<forall>w output_dir parent_title.
     block_to_markdown example_env
       (PDict [(u ''type'', PStr (u ''table'')), (u ''id'', PStr (u ''t1'')),
               (u ''table'', PDict [(u ''has_column_header'', PBool False)])])
       output_dir parent_title w =
     (Inr (u ''| k | v |\<newline>| --- | --- |\<newline>| a'' @ [92] @ u ''|b | 1 |\<newline>\<newline>''), w) \<and>
     pipes_escaped (u ''a'' @ [92] @ u ''|b'')"
proof (intro allI)
  fix w output_dir parent_title
  let ?b = "PDict [(u ''type'', PStr (u ''table'')), (u ''id'', PStr (u ''t1'')),
               (u ''table'', PDict [(u ''has_column_header'', PBool False)])]"
  let ?r1 = "table_row_block [text_cell ''k'', text_cell ''v'']"
  let ?r2 = "table_row_block [text_cell ''a|b'', text_cell ''1'']"
  have 1: "py_get ?b (u ''id'') PNone = Inr (PStr (u ''t1''))"
    by (simp add: py_get_def u_eq_iff)
  have 2: "py_get ?b (u ''table'') (PDict []) =
      Inr (PDict [(u ''has_column_header'', PBool False)])"
    by (simp add: py_get_def u_eq_iff)
  have 3: "blocks_children_list example_env (PStr (u ''t1'')) PNone = Inr (listing [?r1, ?r2])"
    by (simp add: example_env_def u_eq_iff)
  have 4: "py_get (listing [?r1, ?r2]) (u ''results'') (PList []) = Inr (PList [?r1, ?r2])"
    by (simp add: listing_def py_get_def)
  have 5: "list_all is_table_row [?r1, ?r2]"
    by (simp add: is_table_row_def table_row_block_def py_get_def)
  have 6: "emapM row_cell_texts [?r1, ?r2] = Inr [[u ''k'', u ''v''], [u ''a|b'', u ''1'']]"
    by (simp add: row_cell_texts_def table_row_block_def text_cell_def block_field_def
          rich_text_to_markdown_def rich_text_run_def wrap_if_def py_join_def as_str_def
          py_iter_def py_get_def ebind_def u_eq_iff)
  have 7: "expected_table [u ''k'', u ''v''] [[u ''a|b'', u ''1'']] =
      u ''| k | v |\<newline>| --- | --- |\<newline>| a'' @ [92] @ u ''|b | 1 |\<newline>\<newline>''"
    by (simp add: expected_table_def table_row_text_def escape_pipes_def replace_chr_def u_def)
  have 8: "escape_pipes (u ''a|b'') = u ''a'' @ [92] @ u ''|b''"
    by (simp add: escape_pipes_def replace_chr_def u_def)
  from table_rendering [OF 1 2 3 4 5 6, of w "PBool False" output_dir parent_title] 7 8
  show "block_to_markdown example_env ?b output_dir parent_title w =
     (Inr (u ''| k | v |\<newline>| --- | --- |\<newline>| a'' @ [92] @ u ''|b | 1 |\<newline>\<newline>''), w) \<and>
     pipes_escaped (u ''a'' @ [92] @ u ''|b'')"
    by auto
qed

section \<open>Properties of the asset fetcher\<close>

lemma download_image_again:
  "fst (download_image e url od (snd (download_image e url od w))) = fst (download_image e url od w) \<and>
   writes (snd (download_image e url od (snd (download_image e url od w)))) =
     writes (snd (download_image e url od w)) \<and>
   fs_files (snd (download_image e url od (snd (download_image e url od w)))) =
     fs_files (snd (download_image e url od w))"
  by (auto simp: download_image_def Let_def path_exists_def mkdir_p_def write_file_def
        print_ev_def split: sum.splits)

lemma download_image_at_most_once:
  "writes (snd (download_image e url od w)) = writes w \<or>
   (\<exists>p. writes (snd (download_image e url od w)) = writes w @ [p])"
  by (auto simp: download_image_def Let_def mkdir_p_def write_file_def print_ev_def
        split: sum.splits)

lemma download_image_success:
  assumes "image_filename e url = Inr filename"
    and "requests_get e url = Inr data"
    and "\<not> path_exists (path_join (path_join od (u ''images'')) filename)
           (mkdir_p (path_join od (u ''images'')) w)"
  shows "fst (download_image e url od w) = PStr (u ''images/'' @ filename) \<and>
         writes (snd (download_image e url od w)) =
           writes w @ [path_join (path_join od (u ''images'')) filename] \<and>
         fs_files (snd (download_image e url od w))
           (path_join (path_join od (u ''images'')) filename) = Some (Bytes data)"
  using assms
  by (simp add: download_image_def Let_def mkdir_p_def write_file_def print_ev_def)

lemma download_image_failure:
  assumes "image_filename e url = Inl err \<or>
           (\<exists>filename. image_filename e url = Inr filename \<and>
              \<not> path_exists (path_join (path_join od (u ''images'')) filename)
                  (mkdir_p (path_join od (u ''images'')) w)) \<and>
           requests_get e url = Inl err"
  shows "fst (download_image e url od w) = url \<and>
         writes (snd (download_image e url od w)) = writes w \<and>
         fs_files (snd (download_image e url od w)) = fs_files w"
  using assms
  by (auto simp: download_image_def Let_def mkdir_p_def write_file_def print_ev_def)

lemma world_writes:
  "writes (print_ev ev w) = writes w"
  "writes (mkdir_p d w) = writes w"
  "writes (write_file p c w) = writes w @ [p]"
  "writes empty_world = []"
  by (simp_all add: print_ev_def mkdir_p_def write_file_def empty_world_def)

lemma world_files:
  "fs_files (print_ev ev w) = fs_files w"
  "fs_files (mkdir_p d w) = fs_files w"
  "fs_files (write_file p c w) = (fs_files w)(p \<mapsto> c)"
  "fs_files empty_world = Map.empty"
  by (simp_all add: print_ev_def mkdir_p_def write_file_def empty_world_def)

lemma world_console:
  "console (print_ev ev w) = console w @ [ev]"
  "console (mkdir_p d w) = console w"
  "console (write_file p c w) = console w"
  "console empty_world = []"
  by (simp_all add: print_ev_def mkdir_p_def write_file_def empty_world_def)

lemma world_exists:
  "path_exists p (print_ev ev w) = path_exists p w"
  "path_exists p (write_file q c w) = (p = q \<or> path_exists p w)"
  "path_exists p empty_world = False"
  "length d < length p \<Longrightarrow> path_exists p (mkdir_p d w) = path_exists p w"
  by (auto simp: path_exists_def print_ev_def mkdir_p_def write_file_def empty_world_def)

lemmas world_simps = world_writes world_files world_console world_exists

lemmas image_eval =
  download_image_def image_filename_def example_env_def OUTPUT_DIR_def
  path_join_def unsafe_chars_def world_simps ebind_def Let_def u_def

text \<open>
  C9, as the claim states it, fails for a URL whose download fails. The example store
  answers the image \<^verbatim>\<open>gone.png\<close> with an error: the file is written by neither fetch,
  not once, and both fetches return the remote URL, not a local path. The source catches
  the error and returns the URL it was given (lines 186 to 188).
\<close>

theorem asset_fetch_failure_counterexample:
  "fst (download_image example_env (PStr (u ''https://files.example/u2/gone.png'')) OUTPUT_DIR
          empty_world) = PStr (u ''https://files.example/u2/gone.png'') \<and>
   writes (snd (download_image example_env (PStr (u ''https://files.example/u2/gone.png''))
                  OUTPUT_DIR empty_world)) = [] \<and>
   fst (download_image example_env (PStr (u ''https://files.example/u2/gone.png'')) OUTPUT_DIR
          (snd (download_image example_env (PStr (u ''https://files.example/u2/gone.png''))
                  OUTPUT_DIR empty_world))) = PStr (u ''https://files.example/u2/gone.png'') \<and>
   writes (snd (download_image example_env (PStr (u ''https://files.example/u2/gone.png''))
          OUTPUT_DIR
          (snd (download_image example_env (PStr (u ''https://files.example/u2/gone.png''))
                  OUTPUT_DIR empty_world)))) = []"
  by (simp add: image_eval)

text \<open>
  C9, amended. Fetching the same URL twice returns the same value both times, and the
  second fetch writes no file. When the file name can be derived, the file does not
  exist yet and the download succeeds, the first fetch writes the file, once, and
  returns the local path \<^verbatim>\<open>images/<filename>\<close>, which the second fetch returns too
  without a download. When the download fails, the fetch returns the URL it was given
  and writes nothing.
\<close>

theorem asset_fetch_deduplicated:
  "fst (download_image e url od (snd (download_image e url od w))) =
     fst (download_image e url od w) \<and>
   writes (snd (download_image e url od (snd (download_image e url od w)))) =
     writes (snd (download_image e url od w)) \<and>
   (image_filename e url = Inr filename \<and> requests_get e url = Inr data \<and>
    \<not> path_exists (path_join (path_join od (u ''images'')) filename)
        (mkdir_p (path_join od (u ''images'')) w) \<longrightarrow>
      fst (download_image e url od w) = PStr (u ''images/'' @ filename) \<and>
      writes (snd (download_image e url od w)) =
        writes w @ [path_join (path_join od (u ''images'')) filename] \<and>
      fs_files (snd (download_image e url od w))
        (path_join (path_join od (u ''images'')) filename) = Some (Bytes data)) \<and>
   (image_filename e url = Inr filename \<and> requests_get e url = Inl err \<and>
    \<not> path_exists (path_join (path_join od (u ''images'')) filename)
        (mkdir_p (path_join od (u ''images'')) w) \<longrightarrow>
      fst (download_image e url od w) = url \<and>
      writes (snd (download_image e url od w)) = writes w)"
  using download_image_again [of e url od w]
    download_image_success [of e url filename data od w]
    download_image_failure [of e url err od w]
  by blast

text \<open>
  The image \<^verbatim>\<open>pic.png\<close> of the example store, fetched twice into an empty world: one
  file is written, and both fetches return \<^verbatim>\<open>images/u1_pic.png\<close>.
\<close>

theorem asset_fetch_deduplicated_witness:
  "fst (download_image example_env (PStr (u ''https://files.example/u1/pic.png'')) OUTPUT_DIR
          empty_world) = PStr (u ''images/u1_pic.png'') \<and>
   writes (snd (download_image example_env (PStr (u ''https://files.example/u1/pic.png''))
                  OUTPUT_DIR empty_world)) = [[u ''root_page'', u ''images'', u ''u1_pic.png'']] \<and>
   fst (download_image example_env (PStr (u ''https://files.example/u1/pic.png'')) OUTPUT_DIR
          (snd (download_image example_env (PStr (u ''https://files.example/u1/pic.png''))
                  OUTPUT_DIR empty_world))) = PStr (u ''images/u1_pic.png'') \<and>
   writes (snd (download_image example_env (PStr (u ''https://files.example/u1/pic.png''))
          OUTPUT_DIR
          (snd (download_image example_env (PStr (u ''https://files.example/u1/pic.png''))
                  OUTPUT_DIR empty_world)))) = [[u ''root_page'', u ''images'', u ''u1_pic.png'']]"
proof -
  let ?url = "PStr (u ''https://files.example/u1/pic.png'')"
  have 1: "image_filename example_env ?url = Inr (u ''u1_pic.png'')"
    by (simp add: image_filename_def example_env_def unsafe_chars_def ebind_def Let_def u_def)
  have 2: "requests_get example_env ?url = Inr [137, 80, 78, 71]"
    by (simp add: example_env_def)
  have 3: "\<not> path_exists (path_join (path_join OUTPUT_DIR (u ''images'')) (u ''u1_pic.png''))
        (mkdir_p (path_join OUTPUT_DIR (u ''images'')) empty_world)"
    by (simp add: OUTPUT_DIR_def path_join_def world_simps u_def)
  have 4: "path_join (path_join OUTPUT_DIR (u ''images'')) (u ''u1_pic.png'') =
      [u ''root_page'', u ''images'', u ''u1_pic.png'']"
    by (simp add: OUTPUT_DIR_def path_join_def u_def)
  from asset_fetch_deduplicated [of example_env ?url OUTPUT_DIR empty_world "u ''u1_pic.png''"
      "[137, 80, 78, 71]" ValueError] 1 2 3
  show ?thesis
    by (simp add: 4 world_simps) (simp add: u_def)
qed

section \<open>Properties of the export orchestrator\<close>















end
